theory Spec2Isabelle
  imports Complex_Main "HOL-Library.Sublist"
begin

section \<open>JavaScript strings\<close>

text \<open>
  A JavaScript string is a sequence of UTF-16 code units. The regular expressions of the
  application carry no \<open>u\<close> flag, so they work on code units; a code unit is modelled as its
  number. \<open>js\<close> writes an ASCII literal of the source as such a sequence.
\<close>

type_synonym jschar = nat
type_synonym jsstring = "jschar list"

definition js :: "string \<Rightarrow> jsstring" where
  "js s = map of_char s"

text \<open>The character classes \<open>\d\<close>, \<open>\w\<close>, \<open>\s\<close> of ECMAScript and the line terminators that
  \<open>.\<close> does not match (without the \<open>s\<close> flag).\<close>

definition is_digit :: "jschar \<Rightarrow> bool" where
  "is_digit c \<longleftrightarrow> 48 \<le> c \<and> c \<le> 57"

definition is_word :: "jschar \<Rightarrow> bool" where
  "is_word c \<longleftrightarrow> is_digit c \<or> (65 \<le> c \<and> c \<le> 90) \<or> (97 \<le> c \<and> c \<le> 122) \<or> c = 95"

definition is_line_terminator :: "jschar \<Rightarrow> bool" where
  "is_line_terminator c \<longleftrightarrow> c = 10 \<or> c = 13 \<or> c = 8232 \<or> c = 8233"

definition is_space :: "jschar \<Rightarrow> bool" where
  "is_space c \<longleftrightarrow> c = 9 \<or> c = 10 \<or> c = 11 \<or> c = 12 \<or> c = 13 \<or> c = 32 \<or> c = 160
     \<or> c = 5760 \<or> (8192 \<le> c \<and> c \<le> 8202) \<or> c = 8232 \<or> c = 8233 \<or> c = 8239
     \<or> c = 8287 \<or> c = 12288 \<or> c = 65279"

definition strip_prefix :: "jsstring \<Rightarrow> jsstring \<Rightarrow> jsstring option" where
  "strip_prefix p s = (if prefix p s then Some (drop (length p) s) else None)"

text \<open>\<open>String.prototype.trim\<close>: white space and line terminators are removed at both ends.\<close>

definition trim :: "jsstring \<Rightarrow> jsstring" where
  "trim s = rev (dropWhile is_space (rev (dropWhile is_space s)))"

subsection \<open>Searching with a regular expression\<close>

text \<open>
  Every regular expression of the source is translated into a matcher at one position: a
  function from the rest of the input to the result of a match that starts there. The three
  functions below are the ways the source runs one over a string.

  \<open>search\<close> is \<open>String.prototype.match\<close> with a non-global expression: the match at the
  leftmost position that has one.
\<close>

fun search :: "(jsstring \<Rightarrow> 'a option) \<Rightarrow> jsstring \<Rightarrow> 'a option" where
  "search m [] = m []"
| "search m (c # r) = (case m (c # r) of Some x \<Rightarrow> Some x | None \<Rightarrow> search m r)"

text \<open>
  \<open>match_all\<close> is \<open>String.prototype.matchAll\<close> (flag \<open>g\<close>): the matches from left to right,
  each search resuming where the last match ended; the matcher gives the matched text and
  the input after it. An empty match resumes one code unit further.
\<close>

function match_all :: "(jsstring \<Rightarrow> (jsstring \<times> jsstring) option) \<Rightarrow> jsstring \<Rightarrow> jsstring list" where
  "match_all m s =
    (case m s of
       Some (found, rest) \<Rightarrow>
         if length rest < length s then found # match_all m rest
         else found # (case s of [] \<Rightarrow> [] | c # r \<Rightarrow> match_all m r)
     | None \<Rightarrow> (case s of [] \<Rightarrow> [] | c # r \<Rightarrow> match_all m r))"
  by pat_completeness auto
termination
  by (relation "measure (\<lambda>(m, s). length s)") simp_all

text \<open>
  \<open>replace_all\<close> is \<open>String.prototype.replace\<close> with a global expression: every match, from
  left to right, gives way to its replacement, and the text between matches is kept. The
  matcher gives the replacement (the template of the source already expanded with the
  groups of the match) and the input after the match.
\<close>

function replace_all :: "(jsstring \<Rightarrow> (jsstring \<times> jsstring) option) \<Rightarrow> jsstring \<Rightarrow> jsstring" where
  "replace_all m s =
    (case m s of
       Some (rep, rest) \<Rightarrow>
         if length rest < length s then rep @ replace_all m rest
         else rep @ (case s of [] \<Rightarrow> [] | c # r \<Rightarrow> c # replace_all m r)
     | None \<Rightarrow> (case s of [] \<Rightarrow> [] | c # r \<Rightarrow> c # replace_all m r))"
  by pat_completeness auto
termination
  by (relation "measure (\<lambda>(m, s). length s)") simp_all

section \<open>JSON.parse\<close>

text \<open>
  The values \<open>JSON.parse\<close> produces. A number keeps its literal (the source never
  computes with one before it reaches the forecast request); an object is the list of its
  properties in the order of their first definition.
\<close>

datatype json =
    JNull
  | JBool bool
  | JNumber jsstring
  | JString jsstring
  | JArray "json list"
  | JObject "(jsstring \<times> json) list"

datatype js_error = SyntaxError | RangeError | TypeError | Error jsstring

definition is_json_ws :: "jschar \<Rightarrow> bool" where
  "is_json_ws c \<longleftrightarrow> c = 9 \<or> c = 10 \<or> c = 13 \<or> c = 32"

abbreviation skip_json_ws :: "jsstring \<Rightarrow> jsstring" where
  "skip_json_ws \<equiv> dropWhile is_json_ws"

definition hex_val :: "jschar \<Rightarrow> nat option" where
  "hex_val c =
    (if 48 \<le> c \<and> c \<le> 57 then Some (c - 48)
     else if 65 \<le> c \<and> c \<le> 70 then Some (c - 55)
     else if 97 \<le> c \<and> c \<le> 102 then Some (c - 87)
     else None)"

definition json_escape :: "jschar \<Rightarrow> jschar option" where
  "json_escape e =
    (if e = 34 then Some 34 else if e = 92 then Some 92 else if e = 47 then Some 47
     else if e = 98 then Some 8 else if e = 102 then Some 12 else if e = 110 then Some 10
     else if e = 114 then Some 13 else if e = 116 then Some 9 else None)"

text \<open>The characters of a string literal after its opening quote, with the input after the
  closing quote.\<close>

fun json_string_body :: "jsstring \<Rightarrow> (jsstring \<times> jsstring) option" where
  "json_string_body [] = None"
| "json_string_body (c # r) =
    (if c = 34 then Some ([], r)
     else if c = 92 then
       (case r of
          [] \<Rightarrow> None
        | e # r1 \<Rightarrow>
            if e = 117 then
              (case r1 of
                 h1 # h2 # h3 # h4 # r2 \<Rightarrow>
                   (case (hex_val h1, hex_val h2, hex_val h3, hex_val h4) of
                      (Some a, Some b, Some c', Some d) \<Rightarrow>
                        map_option (\<lambda>(s, rest). ((((a * 16 + b) * 16 + c') * 16 + d) # s, rest))
                          (json_string_body r2)
                    | _ \<Rightarrow> None)
               | _ \<Rightarrow> None)
            else
              (case json_escape e of
                 None \<Rightarrow> None
               | Some x \<Rightarrow> map_option (\<lambda>(s, rest). (x # s, rest)) (json_string_body r1)))
     else if c < 32 then None
     else map_option (\<lambda>(s, rest). (c # s, rest)) (json_string_body r))"

text \<open>A number literal: \<open>-? (0 | [1-9][0-9]*) (. [0-9]+)? ([eE] [+-]? [0-9]+)?\<close>, the longest
  one at the head of the input.\<close>

definition json_number :: "jsstring \<Rightarrow> (jsstring \<times> jsstring) option" where
  "json_number s =
    (let (sgn, r0) = (case s of [] \<Rightarrow> ([], s) | c # r \<Rightarrow> if c = 45 then ([45], r) else ([], s));
         ds = takeWhile is_digit r0
     in if ds = [] then None
        else
          let ip = (if hd ds = 48 then [48] else ds);
              r1 = drop (length ip) r0;
              (fp, r2) = (case r1 of
                            [] \<Rightarrow> ([], r1)
                          | c # r \<Rightarrow>
                              if c = 46 \<and> takeWhile is_digit r \<noteq> []
                              then (46 # takeWhile is_digit r, dropWhile is_digit r)
                              else ([], r1));
              (ep, r3) = (case r2 of
                            [] \<Rightarrow> ([], r2)
                          | c # r \<Rightarrow>
                              if c = 101 \<or> c = 69 then
                                (let (es, r') = (case r of
                                                  [] \<Rightarrow> ([], r)
                                                | d # t \<Rightarrow> if d = 43 \<or> d = 45 then ([d], t) else ([], r))
                                 in if takeWhile is_digit r' \<noteq> []
                                    then (c # es @ takeWhile is_digit r', dropWhile is_digit r')
                                    else ([], r2))
                              else ([], r2))
          in Some (sgn @ ip @ fp @ ep, r3))"

text \<open>Defining a property that the object already has replaces its value and keeps its
  place (\<open>JSON.parse\<close> on a duplicate key: the last value wins).\<close>

fun obj_set :: "(jsstring \<times> json) list \<Rightarrow> jsstring \<Rightarrow> json \<Rightarrow> (jsstring \<times> json) list" where
  "obj_set [] k v = [(k, v)]"
| "obj_set ((k', v') # ps) k v = (if k' = k then (k', v) # ps else (k', v') # obj_set ps k v)"

text \<open>
  The recursive descent: a value, the elements of an array after its opening bracket, the
  members of an object after its opening brace. Each gives the value read and the input
  after it. The comparisons of lengths hold whenever they are reached (a value is never
  empty); they make the recursion well-founded by themselves.
\<close>

function json_value :: "jsstring \<Rightarrow> (json \<times> jsstring) option"
  and json_elements :: "jsstring \<Rightarrow> json list \<Rightarrow> (json \<times> jsstring) option"
  and json_members :: "jsstring \<Rightarrow> (jsstring \<times> json) list \<Rightarrow> (json \<times> jsstring) option"
where
  "json_value s =
    (case skip_json_ws s of
       [] \<Rightarrow> None
     | c # r \<Rightarrow>
         if c = 123 then
           (case skip_json_ws r of
              [] \<Rightarrow> None
            | d # r' \<Rightarrow> if d = 125 then Some (JObject [], r') else json_members r [])
         else if c = 91 then
           (case skip_json_ws r of
              [] \<Rightarrow> None
            | d # r' \<Rightarrow> if d = 93 then Some (JArray [], r') else json_elements r [])
         else if c = 34 then
           map_option (\<lambda>(str, r'). (JString str, r')) (json_string_body r)
         else if prefix (js ''true'') (c # r) then Some (JBool True, drop 4 (c # r))
         else if prefix (js ''false'') (c # r) then Some (JBool False, drop 5 (c # r))
         else if prefix (js ''null'') (c # r) then Some (JNull, drop 4 (c # r))
         else map_option (\<lambda>(n, r'). (JNumber n, r')) (json_number (c # r)))"
| "json_elements s acc =
    (case json_value s of
       None \<Rightarrow> None
     | Some (v, r) \<Rightarrow>
         (case skip_json_ws r of
            [] \<Rightarrow> None
          | c # r' \<Rightarrow>
              if c = 44 then (if length r' < length s then json_elements r' (acc @ [v]) else None)
              else if c = 93 then Some (JArray (acc @ [v]), r')
              else None))"
| "json_members s acc =
    (case skip_json_ws s of
       [] \<Rightarrow> None
     | q # r0 \<Rightarrow>
         if q \<noteq> 34 then None
         else
           (case json_string_body r0 of
              None \<Rightarrow> None
            | Some (k, r1) \<Rightarrow>
                (case skip_json_ws r1 of
                   [] \<Rightarrow> None
                 | c # r2 \<Rightarrow>
                     if c \<noteq> 58 \<or> \<not> length r2 < length s then None
                     else
                       (case json_value r2 of
                          None \<Rightarrow> None
                        | Some (v, r3) \<Rightarrow>
                            (case skip_json_ws r3 of
                               [] \<Rightarrow> None
                             | d # r4 \<Rightarrow>
                                 if d = 44 then
                                   (if length r4 < length s
                                    then json_members r4 (obj_set acc k v) else None)
                                 else if d = 125 then Some (JObject (obj_set acc k v), r4)
                                 else None)))))"
  by pat_completeness auto
termination
proof (relation "measure (\<lambda>x. case x of
          Inl s \<Rightarrow> 2 * length s
        | Inr (Inl (s, _)) \<Rightarrow> 2 * length s + 1
        | Inr (Inr (s, _)) \<Rightarrow> 2 * length s + 1)", goal_cases)
  case 1
  show ?case by simp
next
  case (2 s c r d r')
  have "length (c # r) \<le> length s"
    using 2(1) length_dropWhile_le[of is_json_ws s] by metis
  then show ?case by simp
next
  case (3 s c r d r')
  have "length (c # r) \<le> length s"
    using 3(1) length_dropWhile_le[of is_json_ws s] by metis
  then show ?case by simp
qed auto

text \<open>\<open>JSON.parse\<close>: one value, white space around it, nothing else; a \<open>SyntaxError\<close>
  is thrown otherwise.\<close>

definition JSON_parse :: "jsstring \<Rightarrow> js_error + json" where
  "JSON_parse s =
    (case json_value s of
       None \<Rightarrow> Inl SyntaxError
     | Some (v, r) \<Rightarrow> if skip_json_ws r = [] then Inr v else Inl SyntaxError)"

section \<open>The repair parser\<close>

text \<open>\<open>/([{,]\s*)(\w+)\s*:/g\<close> with the template \<open>$1"$2":\<close>. The classes that follow one another
  are disjoint, so the greedy match is the only one.\<close>

definition bare_key_at :: "jsstring \<Rightarrow> (jsstring \<times> jsstring) option" where
  "bare_key_at s =
    (case s of
       [] \<Rightarrow> None
     | c # r \<Rightarrow>
         if c = 123 \<or> c = 44 then
           (let g1 = c # takeWhile is_space r;
                r1 = dropWhile is_space r;
                g2 = takeWhile is_word r1;
                r2 = dropWhile is_space (dropWhile is_word r1)
            in if g2 = [] then None
               else (case r2 of
                       [] \<Rightarrow> None
                     | d # r3 \<Rightarrow> if d = 58 then Some (g1 @ [34] @ g2 @ [34, 58], r3) else None))
         else None)"

text \<open>\<open>/,\s*([}\]])/g\<close> with the template \<open>$1\<close>.\<close>

definition trailing_comma_at :: "jsstring \<Rightarrow> (jsstring \<times> jsstring) option" where
  "trailing_comma_at s =
    (case s of
       [] \<Rightarrow> None
     | c # r \<Rightarrow>
         if c = 44 then
           (case dropWhile is_space r of
              [] \<Rightarrow> None
            | d # r1 \<Rightarrow> if d = 125 \<or> d = 93 then Some ([d], r1) else None)
         else None)"

definition cleanedString :: "jsstring \<Rightarrow> jsstring" where
  "cleanedString jsonString = replace_all trailing_comma_at (replace_all bare_key_at jsonString)"

text \<open>\<open>/(\[.*\])/s\<close>: from an opening bracket to the last closing bracket after it.\<close>

definition main_array_at :: "jsstring \<Rightarrow> jsstring option" where
  "main_array_at s =
    (case s of
       [] \<Rightarrow> None
     | c # r \<Rightarrow>
         if c = 91 \<and> 93 \<in> set r then Some (c # rev (dropWhile (\<lambda>x. x \<noteq> 93) (rev r)))
         else None)"

text \<open>
  \<open>parseAndCleanJson\<close>. The result \<open>None\<close> is the \<open>null\<close> of the last line; a successful
  parse of the text \<open>null\<close> gives \<open>Some JNull\<close>, which the callers treat alike.
  Every exception of \<open>JSON.parse\<close> is caught, so the function has no error result.
\<close>

definition parseAndCleanJson :: "jsstring \<Rightarrow> json option" where
  "parseAndCleanJson jsonString =
    (case JSON_parse jsonString of
       Inr v \<Rightarrow> Some v
     | Inl e \<Rightarrow>
         (case JSON_parse (cleanedString jsonString) of
            Inr v \<Rightarrow> Some v
          | Inl e2 \<Rightarrow>
              (case search main_array_at jsonString of
                 Some m \<Rightarrow> (case JSON_parse m of Inr v \<Rightarrow> Some v | Inl e3 \<Rightarrow> None)
               | None \<Rightarrow> None)))"

section \<open>The domain extractor\<close>

text \<open>\<open>/WAYPOINTS:\s*(\[.*?\])/s\<close> and \<open>/POIS:\s*(\[.*?\])/s\<close>: the label, white space, and the
  bracketed region up to the first closing bracket (the quantifier is lazy, and with the
  \<open>s\<close> flag the dot matches every code unit). The result is group 1.\<close>

definition labelled_array_at :: "jsstring \<Rightarrow> jsstring \<Rightarrow> jsstring option" where
  "labelled_array_at label s =
    (case strip_prefix label s of
       None \<Rightarrow> None
     | Some r \<Rightarrow>
         (case dropWhile is_space r of
            [] \<Rightarrow> None
          | c # r1 \<Rightarrow>
              if c = 91 \<and> 93 \<in> set r1 then Some (c # takeWhile (\<lambda>x. x \<noteq> 93) r1 @ [93])
              else None))"

text \<open>
  The test of one element: \<open>typeof item === 'object' && item !== null\<close> and every key
  \<open>in item\<close>. An array passes the \<open>typeof\<close> test, but it has none of the keys the source
  asks for (\<open>name\<close>, \<open>address\<close>, \<open>lat\<close>, \<open>lng\<close>), and neither has the prototype of an
  object, so the test holds exactly of the objects with these keys among their own.
\<close>

fun has_keys :: "jsstring list \<Rightarrow> json \<Rightarrow> bool" where
  "has_keys ks (JObject ps) = list_all (\<lambda>k. k \<in> set (map fst ps)) ks"
| "has_keys ks _ = False"

type_synonym jsobject = "(jsstring \<times> json) list"

fun properties :: "json \<Rightarrow> jsobject" where
  "properties (JObject ps) = ps"
| "properties _ = []"

text \<open>What both list extractors do with the region they found: the list, and the message
  passed to \<open>setError\<close> if there is one. \<open>parsed && Array.isArray(parsed)\<close> holds of the
  arrays only.\<close>

definition validated :: "jsstring list \<Rightarrow> jsstring \<Rightarrow> json option \<Rightarrow> jsobject list \<times> jsstring option" where
  "validated ks msg parsed =
    (case parsed of
       Some (JArray items) \<Rightarrow>
         if list_all (has_keys ks) items then (map properties items, None) else ([], Some msg)
     | _ \<Rightarrow> ([], Some msg))"

definition parseWaypointsFromResponse :: "jsstring \<Rightarrow> jsobject list \<times> jsstring option" where
  "parseWaypointsFromResponse txt =
    (case search (labelled_array_at (js ''WAYPOINTS:'')) txt of
       Some m \<Rightarrow>
         validated [js ''name'', js ''lat'', js ''lng'']
           (js ''Failed to parse waypoints from AI response or data was invalid.'')
           (parseAndCleanJson m)
     | None \<Rightarrow> ([], None))"

definition parsePoisFromResponse :: "jsstring \<Rightarrow> jsobject list \<times> jsstring option" where
  "parsePoisFromResponse txt =
    (case search (labelled_array_at (js ''POIS:'')) txt of
       Some m \<Rightarrow>
         validated [js ''name'', js ''address'', js ''lat'', js ''lng'']
           (js ''Failed to parse points of interest from AI response or data was invalid.'')
           (parseAndCleanJson m)
     | None \<Rightarrow> ([], None))"

text \<open>\<open>/START_DATE:\s*(\d{4}-\d{2}-\d{2})/\<close>; the result is group 1.\<close>

definition is_date_token :: "jsstring \<Rightarrow> bool" where
  "is_date_token d \<longleftrightarrow>
    (case d of
       [y1, y2, y3, y4, m, m1, m2, n, d1, d2] \<Rightarrow>
         is_digit y1 \<and> is_digit y2 \<and> is_digit y3 \<and> is_digit y4 \<and> m = 45
         \<and> is_digit m1 \<and> is_digit m2 \<and> n = 45 \<and> is_digit d1 \<and> is_digit d2
     | _ \<Rightarrow> False)"

definition start_date_at :: "jsstring \<Rightarrow> jsstring option" where
  "start_date_at s =
    (case strip_prefix (js ''START_DATE:'') s of
       None \<Rightarrow> None
     | Some r \<Rightarrow>
         (let d = take 10 (dropWhile is_space r) in if is_date_token d then Some d else None))"

definition parseStartDateFromResponse :: "jsstring \<Rightarrow> jsstring option" where
  "parseStartDateFromResponse txt = search start_date_at txt"

section \<open>Dates\<close>

text \<open>
  The \<open>Date\<close> of ECMAScript: a time value is a number of milliseconds since the start of
  1970 in UTC (an integer, exact in a double within the range \<open>TimeClip\<close> admits), and
  \<open>None\<close> is the time value \<open>NaN\<close> of an invalid date. The functions are those of the
  language specification, under their names there.
\<close>

definition msPerDay :: int where
  "msPerDay = 86400000"

definition Day :: "int \<Rightarrow> int" where
  "Day t = t div msPerDay"

definition TimeWithinDay :: "int \<Rightarrow> int" where
  "TimeWithinDay t = t mod msPerDay"

definition DaysInYear :: "int \<Rightarrow> int" where
  "DaysInYear y =
    (if y mod 4 \<noteq> 0 then 365 else if y mod 100 \<noteq> 0 then 366
     else if y mod 400 \<noteq> 0 then 365 else 366)"

definition DayFromYear :: "int \<Rightarrow> int" where
  "DayFromYear y = 365 * (y - 1970) + (y - 1969) div 4 - (y - 1901) div 100 + (y - 1601) div 400"

text \<open>\<open>YearFromTime\<close> is the largest year that starts at or before the time: the search
  goes up from a year that does.\<close>

function year_from :: "int \<Rightarrow> int \<Rightarrow> int" where
  "year_from y d = (if DayFromYear (y + 1) \<le> d then year_from (y + 1) d else y)"
  by pat_completeness auto
termination
proof (relation "measure (\<lambda>(y, d). nat (d + 1 - DayFromYear (y + 1)))", goal_cases)
  case 1
  show ?case by simp
next
  case (2 y d)
  have a: "(y + 1 - 1969) div 4 \<le> (y + 1 + 1 - 1969) div 4"
    by (rule zdiv_mono1) simp_all
  have "(y + 1 + 1 - 1901) div 100 \<le> (y + 1 - 1901 + 100) div 100"
    by (rule zdiv_mono1) simp_all
  then have b: "(y + 1 + 1 - 1901) div 100 \<le> (y + 1 - 1901) div 100 + 1"
    by simp
  have c: "(y + 1 - 1601) div 400 \<le> (y + 1 + 1 - 1601) div 400"
    by (rule zdiv_mono1) simp_all
  have step: "\<And>p p' q q' r r' :: int. p \<le> p' \<Longrightarrow> q' \<le> q + 1 \<Longrightarrow> r \<le> r' \<Longrightarrow>
      365 * (y + 1 - 1970) + p - q + r < 365 * (y + 1 + 1 - 1970) + p' - q' + r'"
    by simp
  have "DayFromYear (y + 1) < DayFromYear (y + 1 + 1)"
    unfolding DayFromYear_def by (rule step [OF a b c])
  with 2 show ?case by simp
qed

definition YearFromTime :: "int \<Rightarrow> int" where
  "YearFromTime t =
    (let d = Day t in year_from (1970 + (if 0 \<le> d then d div 366 else d div 365)) d)"

definition InLeapYear :: "int \<Rightarrow> bool" where
  "InLeapYear t \<longleftrightarrow> DaysInYear (YearFromTime t) = 366"

definition DayWithinYear :: "int \<Rightarrow> int" where
  "DayWithinYear t = Day t - DayFromYear (YearFromTime t)"

text \<open>The day of the year on which month \<open>m\<close> (from 0) starts.\<close>

definition month_start :: "bool \<Rightarrow> int \<Rightarrow> int" where
  "month_start leap m =
    [0, 31, 59, 90, 120, 151, 181, 212, 243, 273, 304, 334] ! nat m
      + (if leap \<and> 2 \<le> m then 1 else 0)"

definition MonthFromTime :: "int \<Rightarrow> int" where
  "MonthFromTime t =
    (let d = DayWithinYear t; l = InLeapYear t
     in if d < month_start l 1 then 0 else if d < month_start l 2 then 1
        else if d < month_start l 3 then 2 else if d < month_start l 4 then 3
        else if d < month_start l 5 then 4 else if d < month_start l 6 then 5
        else if d < month_start l 7 then 6 else if d < month_start l 8 then 7
        else if d < month_start l 9 then 8 else if d < month_start l 10 then 9
        else if d < month_start l 11 then 10 else 11)"

definition DateFromTime :: "int \<Rightarrow> int" where
  "DateFromTime t = DayWithinYear t - month_start (InLeapYear t) (MonthFromTime t) + 1"

definition MakeDay :: "int \<Rightarrow> int \<Rightarrow> int \<Rightarrow> int" where
  "MakeDay year month date =
    (let ym = year + month div 12; mn = month mod 12
     in DayFromYear ym + month_start (DaysInYear ym = 366) mn + date - 1)"

definition MakeDate :: "int \<Rightarrow> int \<Rightarrow> int" where
  "MakeDate day time = day * msPerDay + time"

definition TimeClip :: "int \<Rightarrow> int option" where
  "TimeClip t = (if \<bar>t\<bar> > 8640000000000000 then None else Some t)"

text \<open>
  The local time zone is the environment of the program: the offset of local time from UTC
  in milliseconds, at a time value (\<open>LocalTZA(t, true)\<close>) and at a local time
  (\<open>LocalTZA(t, false)\<close>).
\<close>

record timezone =
  utc_offset :: "int \<Rightarrow> int"
  local_offset :: "int \<Rightarrow> int"

definition LocalTime :: "timezone \<Rightarrow> int \<Rightarrow> int" where
  "LocalTime tz t = t + utc_offset tz t"

definition UTC :: "timezone \<Rightarrow> int \<Rightarrow> int" where
  "UTC tz t = t - local_offset tz t"

text \<open>\<open>Date.prototype.getDate\<close> and \<open>Date.prototype.setDate\<close>, on a valid date.\<close>

definition getDate :: "timezone \<Rightarrow> int \<Rightarrow> int" where
  "getDate tz t = DateFromTime (LocalTime tz t)"

definition setDate :: "timezone \<Rightarrow> int \<Rightarrow> int \<Rightarrow> int option" where
  "setDate tz t dt =
    (let lt = LocalTime tz t;
         newDate = MakeDate (MakeDay (YearFromTime lt) (MonthFromTime lt) dt) (TimeWithinDay lt)
     in TimeClip (UTC tz newDate))"

text \<open>Decimal digits, in a fixed width.\<close>

definition digit :: "int \<Rightarrow> jschar" where
  "digit n = nat (48 + n mod 10)"

definition pad2 :: "int \<Rightarrow> jsstring" where
  "pad2 n = [digit (n div 10), digit n]"

definition pad3 :: "int \<Rightarrow> jsstring" where
  "pad3 n = [digit (n div 100), digit (n div 10), digit n]"

definition pad4 :: "int \<Rightarrow> jsstring" where
  "pad4 n = [digit (n div 1000), digit (n div 100), digit (n div 10), digit n]"

definition pad6 :: "int \<Rightarrow> jsstring" where
  "pad6 n = [digit (n div 100000), digit (n div 10000)] @ pad4 n"

text \<open>\<open>Date.prototype.toISOString\<close> on a valid date (on an invalid one it throws a
  \<open>RangeError\<close>): the fields are those of UTC, and a year outside 0 to 9999 is written
  with a sign and six digits.\<close>

definition toISOString :: "int \<Rightarrow> jsstring" where
  "toISOString t =
    (let y = YearFromTime t
     in (if 0 \<le> y \<and> y \<le> 9999 then pad4 y
         else (if y < 0 then 45 else 43) # pad6 \<bar>y\<bar>)
        @ [45] @ pad2 (MonthFromTime t + 1) @ [45] @ pad2 (DateFromTime t)
        @ [84] @ pad2 (t div 3600000 mod 24) @ [58] @ pad2 (t div 60000 mod 60)
        @ [58] @ pad2 (t div 1000 mod 60) @ [46] @ pad3 (t mod 1000) @ [90])"

text \<open>\<open>s.split('T')[0]\<close>.\<close>

definition split_T_0 :: "jsstring \<Rightarrow> jsstring" where
  "split_T_0 s = takeWhile (\<lambda>c. c \<noteq> 84) s"

text \<open>
  \<open>new Date(s)\<close>. The date-only form \<open>YYYY-MM-DD\<close> of a day that exists is the start of
  that day in UTC. What every other string gives (the other formats of the language, and
  whatever else an engine accepts; engines differ on \<open>2024-02-30\<close>) is the parameter
  \<open>engine\<close>.
\<close>

definition digits_value :: "jsstring \<Rightarrow> int" where
  "digits_value ds = foldl (\<lambda>a c. 10 * a + (int c - 48)) 0 ds"

definition days_in_month :: "int \<Rightarrow> int \<Rightarrow> int" where
  "days_in_month y m =
    (if m = 2 then (if DaysInYear y = 366 then 29 else 28)
     else if m = 4 \<or> m = 6 \<or> m = 9 \<or> m = 11 then 30 else 31)"

definition parse_date_only :: "jsstring \<Rightarrow> int option" where
  "parse_date_only s =
    (if is_date_token s then
       (let y = digits_value (take 4 s);
            m = digits_value (take 2 (drop 5 s));
            d = digits_value (drop 8 s)
        in if 1 \<le> m \<and> m \<le> 12 \<and> 1 \<le> d \<and> d \<le> days_in_month y m
           then Some (MakeDate (MakeDay y (m - 1) d) 0) else None)
     else None)"

definition new_Date :: "(jsstring \<Rightarrow> int option) \<Rightarrow> jsstring \<Rightarrow> int option" where
  "new_Date engine s =
    (case parse_date_only s of
       Some t \<Rightarrow> Some t
     | None \<Rightarrow> (case engine s of None \<Rightarrow> None | Some t \<Rightarrow> TimeClip t))"

section \<open>The forecast gateway\<close>

text \<open>
  A value of JavaScript is a value of JSON or \<open>undefined\<close> (\<open>None\<close>). What the gateway
  does with floating point is left to the platform: whether a number is zero (a number is
  falsy when it is), the text of a value as a property key, and the text of
  \<open>Math.round\<close> of a value.
\<close>

record platform =
  number_is_zero :: "jsstring \<Rightarrow> bool"
  property_key :: "json option \<Rightarrow> jsstring"
  rounded :: "json option \<Rightarrow> jsstring"

fun truthy :: "platform \<Rightarrow> json option \<Rightarrow> bool" where
  "truthy pf None = False"
| "truthy pf (Some JNull) = False"
| "truthy pf (Some (JBool b)) = b"
| "truthy pf (Some (JNumber n)) = (\<not> number_is_zero pf n)"
| "truthy pf (Some (JString s)) = (s \<noteq> [])"
| "truthy pf (Some (JArray xs)) = True"
| "truthy pf (Some (JObject ps)) = True"

text \<open>Reading a property that no prototype has (\<open>daily\<close>, \<open>weathercode\<close>,
  \<open>temperature_2m_max\<close>, \<open>temperature_2m_min\<close>), and reading index 0. Both throw a
  \<open>TypeError\<close> on \<open>undefined\<close> and on \<open>null\<close>.\<close>

fun get_prop :: "json option \<Rightarrow> jsstring \<Rightarrow> js_error + json option" where
  "get_prop None k = Inl TypeError"
| "get_prop (Some JNull) k = Inl TypeError"
| "get_prop (Some (JObject ps)) k = Inr (map_of ps k)"
| "get_prop (Some v) k = Inr None"

fun index0 :: "json option \<Rightarrow> js_error + json option" where
  "index0 None = Inl TypeError"
| "index0 (Some JNull) = Inl TypeError"
| "index0 (Some (JArray xs)) = Inr (case xs of [] \<Rightarrow> None | x # r \<Rightarrow> Some x)"
| "index0 (Some (JString s)) = Inr (case s of [] \<Rightarrow> None | c # r \<Rightarrow> Some (JString [c]))"
| "index0 (Some (JObject ps)) = Inr (map_of ps (js ''0''))"
| "index0 (Some v) = Inr None"

text \<open>\<open>WMO_CODE_MAP\<close>: the key, the description and the icon of each entry.\<close>

definition WMO_CODE_MAP :: "(jsstring \<times> jsstring \<times> jsstring) list" where
  "WMO_CODE_MAP =
    [(js ''0'', js ''Clear sky'', [9728, 65039]),
     (js ''1'', js ''Mainly clear'', [55356, 57124, 65039]),
     (js ''2'', js ''Partly cloudy'', [9925, 65039]),
     (js ''3'', js ''Overcast'', [9729, 65039]),
     (js ''45'', js ''Fog'', [55356, 57131, 65039]),
     (js ''48'', js ''Depositing rime fog'', [55356, 57131, 65039]),
     (js ''51'', js ''Light drizzle'', [55356, 57126, 65039]),
     (js ''53'', js ''Moderate drizzle'', [55356, 57126, 65039]),
     (js ''55'', js ''Dense drizzle'', [55356, 57126, 65039]),
     (js ''56'', js ''Light freezing drizzle'', [55356, 57128, 65039]),
     (js ''57'', js ''Dense freezing drizzle'', [55356, 57128, 65039]),
     (js ''61'', js ''Slight rain'', [55356, 57127, 65039]),
     (js ''63'', js ''Moderate rain'', [55356, 57127, 65039]),
     (js ''65'', js ''Heavy rain'', [55356, 57127, 65039]),
     (js ''66'', js ''Light freezing rain'', [55356, 57128, 65039]),
     (js ''67'', js ''Heavy freezing rain'', [55356, 57128, 65039]),
     (js ''71'', js ''Slight snow fall'', [10052, 65039]),
     (js ''73'', js ''Moderate snow fall'', [10052, 65039]),
     (js ''75'', js ''Heavy snow fall'', [10052, 65039]),
     (js ''77'', js ''Snow grains'', [10052, 65039]),
     (js ''80'', js ''Slight rain showers'', [55356, 57126, 65039]),
     (js ''81'', js ''Moderate rain showers'', [55356, 57126, 65039]),
     (js ''82'', js ''Violent rain showers'', [9928, 65039]),
     (js ''85'', js ''Slight snow showers'', [55356, 57128, 65039]),
     (js ''86'', js ''Heavy snow showers'', [55356, 57128, 65039]),
     (js ''95'', js ''Thunderstorm'', [9928, 65039]),
     (js ''96'', js ''Thunderstorm with slight hail'', [9928, 65039]),
     (js ''99'', js ''Thunderstorm with heavy hail'', [9928, 65039])]"

text \<open>The properties every object inherits: \<open>WMO_CODE_MAP[k]\<close> is truthy at these keys
  too, and the value there has neither an icon nor a description.\<close>

definition Object_prototype_keys :: "jsstring list" where
  "Object_prototype_keys =
    [js ''constructor'', js ''hasOwnProperty'', js ''isPrototypeOf'',
     js ''propertyIsEnumerable'', js ''toLocaleString'', js ''toString'', js ''valueOf'',
     js ''__proto__'', js ''__defineGetter__'', js ''__defineSetter__'',
     js ''__lookupGetter__'', js ''__lookupSetter__'']"

text \<open>\<open>WMO_CODE_MAP[weatherCode] || { description: 'Weather', icon: ... }\<close>, as the pair
  of the texts of its description and its icon in a template.\<close>

definition weatherInfo_of :: "jsstring \<Rightarrow> jsstring \<times> jsstring" where
  "weatherInfo_of k =
    (case map_of WMO_CODE_MAP k of
       Some e \<Rightarrow> e
     | None \<Rightarrow>
         if k \<in> set Object_prototype_keys then (js ''undefined'', js ''undefined'')
         else (js ''Weather'', [55356, 57121, 65039]))"

datatype response = Response (ok: bool) (json: "js_error + json")

text \<open>A request is the latitude, the longitude and the date that the URL is made of.\<close>

type_synonym request = "json option \<times> json option \<times> jsstring"

text \<open>The body of the \<open>try\<close> block of \<open>getWeatherForecast\<close>. \<open>fetch\<close> is the network: it
  throws, or gives a response whose \<open>json()\<close> throws or gives the data. \<open>and_then\<close> is
  the sequence of two steps of which the first may throw.\<close>

definition and_then :: "'e + 'a \<Rightarrow> ('a \<Rightarrow> 'e + 'b) \<Rightarrow> 'e + 'b" where
  "and_then r f = (case r of Inl e \<Rightarrow> Inl e | Inr x \<Rightarrow> f x)"

definition forecast_attempt ::
  "platform \<Rightarrow> (request \<Rightarrow> js_error + response) \<Rightarrow> request \<Rightarrow> js_error + jsstring option" where
  "forecast_attempt pf fetch req =
    and_then (fetch req) (\<lambda>resp.
    if \<not> ok resp then Inr None else
    and_then (json resp) (\<lambda>data.
    if \<not> truthy pf (Some data) then Inr None else
    and_then (get_prop (Some data) (js ''daily'')) (\<lambda>daily.
    if \<not> truthy pf daily then Inr None else
    and_then (get_prop daily (js ''weathercode'')) (\<lambda>codes.
    if \<not> truthy pf codes then Inr None else
    and_then (index0 codes) (\<lambda>weatherCode.
    and_then (get_prop daily (js ''temperature_2m_max'')) (\<lambda>maxs.
    and_then (index0 maxs) (\<lambda>mx.
    and_then (get_prop daily (js ''temperature_2m_min'')) (\<lambda>mins.
    and_then (index0 mins) (\<lambda>mn.
    let (description, icon) = weatherInfo_of (property_key pf weatherCode)
    in Inr (Some (icon @ [32] @ description @ js '', '' @ rounded pf mn @ [176] @ js ''C to ''
                  @ rounded pf mx @ [176, 67])))))))))))"

text \<open>\<open>getWeatherForecast\<close>: whatever the block throws is caught, and the result is \<open>null\<close>
  then. The result type keeps the error case, which the function never takes.\<close>

definition getWeatherForecast ::
  "platform \<Rightarrow> (request \<Rightarrow> js_error + response) \<Rightarrow> request \<Rightarrow> js_error + jsstring option" where
  "getWeatherForecast pf fetch req =
    (case forecast_attempt pf fetch req of Inl e \<Rightarrow> Inr None | Inr r \<Rightarrow> Inr r)"

section \<open>The itinerary enricher\<close>

text \<open>\<open>/(## Day \d+:.*)/g\<close>: the heading runs to the end of its line. The matcher gives the
  heading and the input after it.\<close>

definition day_heading_at :: "jsstring \<Rightarrow> (jsstring \<times> jsstring) option" where
  "day_heading_at s =
    (case strip_prefix (js ''## Day '') s of
       None \<Rightarrow> None
     | Some r \<Rightarrow>
         (let ds = takeWhile is_digit r
          in if ds = [] then None
             else (case dropWhile is_digit r of
                     [] \<Rightarrow> None
                   | c # r1 \<Rightarrow>
                       if c = 58 then
                         Some (js ''## Day '' @ ds @ [58] @ takeWhile (\<lambda>x. \<not> is_line_terminator x) r1,
                               dropWhile (\<lambda>x. \<not> is_line_terminator x) r1)
                       else None)))"

definition dayHeadings :: "jsstring \<Rightarrow> jsstring list" where
  "dayHeadings itineraryText = match_all day_heading_at itineraryText"

text \<open>
  \<open>String.prototype.replace\<close> with a string to look for and a string to put in its place:
  the first occurrence is replaced, and in the replacement \<open>$$\<close> stands for a dollar,
  \<open>$&\<close> for the occurrence, \<open>$`\<close> for the text before it and \<open>$'\<close> for the text after it
  (there are no groups, so a dollar before anything else stands for itself).
\<close>

fun find_first :: "jsstring \<Rightarrow> jsstring \<Rightarrow> (jsstring \<times> jsstring) option" where
  "find_first p [] = (if p = [] then Some ([], []) else None)"
| "find_first p (c # r) =
    (if prefix p (c # r) then Some ([], drop (length p) (c # r))
     else map_option (\<lambda>(b, a). (c # b, a)) (find_first p r))"

fun GetSubstitution :: "jsstring \<Rightarrow> jsstring \<Rightarrow> jsstring \<Rightarrow> jsstring \<Rightarrow> jsstring" where
  "GetSubstitution matched preceding following [] = []"
| "GetSubstitution matched preceding following [c] = [c]"
| "GetSubstitution matched preceding following (c # d # r) =
    (if c = 36 \<and> d = 36 then 36 # GetSubstitution matched preceding following r
     else if c = 36 \<and> d = 38 then matched @ GetSubstitution matched preceding following r
     else if c = 36 \<and> d = 96 then preceding @ GetSubstitution matched preceding following r
     else if c = 36 \<and> d = 39 then following @ GetSubstitution matched preceding following r
     else c # GetSubstitution matched preceding following (d # r))"

definition replace_first :: "jsstring \<Rightarrow> jsstring \<Rightarrow> jsstring \<Rightarrow> jsstring" where
  "replace_first s p replacement =
    (case find_first p s of
       None \<Rightarrow> s
     | Some (preceding, following) \<Rightarrow> preceding @ GetSubstitution p preceding following replacement @ following)"

text \<open>\<open>waypoints[i + 1] || waypoints[waypoints.length - 1]\<close>: a waypoint is an object, hence
  truthy, and an index outside the list gives \<open>undefined\<close>.\<close>

definition location_for :: "jsobject list \<Rightarrow> nat \<Rightarrow> jsobject option" where
  "location_for wps i =
    (if i + 1 < length wps then Some (wps ! (i + 1))
     else if wps = [] then None else Some (last wps))"

definition unavailable :: jsstring where
  "unavailable = 10067 # js '' Forecast unavailable''"

definition weatherHtml :: "jsstring option \<Rightarrow> jsstring" where
  "weatherHtml weatherInfo =
    [10, 10] @ js ''**Weather Forecast:** ''
      @ (case weatherInfo of None \<Rightarrow> unavailable | Some w \<Rightarrow> if w = [] then unavailable else w)"

text \<open>\<open>currentDate.setDate(currentDate.getDate() + 1)\<close>; an invalid date stays invalid.\<close>

definition next_day :: "timezone \<Rightarrow> int option \<Rightarrow> int option" where
  "next_day tz cur = (case cur of None \<Rightarrow> None | Some t \<Rightarrow> setDate tz t (getDate tz t + 1))"

text \<open>
  The loop of \<open>addWeatherToItinerary\<close>, from heading \<open>i\<close> on: the headings left, the date
  cursor, the text so far and the requests made so far. The gateway is called with the
  number of the heading and the request; what it throws ends the function. The result is
  the list of all requests made, and the text or what was thrown.
\<close>

fun enrich_from ::
  "timezone \<Rightarrow> (nat \<Rightarrow> request \<Rightarrow> js_error + jsstring option) \<Rightarrow> jsobject list \<Rightarrow> nat
    \<Rightarrow> jsstring list \<Rightarrow> int option \<Rightarrow> jsstring \<Rightarrow> request list
    \<Rightarrow> request list \<times> (js_error + jsstring)" where
  "enrich_from tz gateway wps i [] cur updatedItinerary reqs = (reqs, Inr updatedItinerary)"
| "enrich_from tz gateway wps i (heading # hs) cur updatedItinerary reqs =
    (case location_for wps i of
       None \<Rightarrow> enrich_from tz gateway wps (i + 1) hs (next_day tz cur) updatedItinerary reqs
     | Some location \<Rightarrow>
         (case cur of
            None \<Rightarrow> (reqs, Inl RangeError)
          | Some t \<Rightarrow>
              (let dateForApi = split_T_0 (toISOString t);
                   req = (map_of location (js ''lat''), map_of location (js ''lng''), dateForApi)
               in case gateway i req of
                    Inl e \<Rightarrow> (reqs @ [req], Inl e)
                  | Inr weatherInfo \<Rightarrow>
                      enrich_from tz gateway wps (i + 1) hs (next_day tz cur)
                        (replace_first updatedItinerary heading (heading @ weatherHtml weatherInfo))
                        (reqs @ [req]))))"

definition addWeatherToItinerary ::
  "timezone \<Rightarrow> (jsstring \<Rightarrow> int option) \<Rightarrow> (nat \<Rightarrow> request \<Rightarrow> js_error + jsstring option)
    \<Rightarrow> jsstring \<Rightarrow> jsobject list \<Rightarrow> jsstring \<Rightarrow> request list \<times> (js_error + jsstring)" where
  "addWeatherToItinerary tz engine gateway itineraryText wps startDateStr =
    (case new_Date engine startDateStr of
       None \<Rightarrow> ([], Inr itineraryText)
     | Some startDate \<Rightarrow>
         enrich_from tz gateway wps 0 (dayHeadings itineraryText) (Some startDate) itineraryText [])"

section \<open>The conversation\<close>

datatype role = User | Assistant

record message =
  role :: role
  content :: jsstring

datatype modal = About | Privacy | Safety

record app_state =
  messages :: "message list"
  prompt :: jsstring
  isLoading :: bool
  error :: "jsstring option"
  waypoints :: "jsobject list"
  pois :: "jsobject list"
  modalContent :: "modal option"

definition initialMessage :: message where
  "initialMessage =
    \<lparr>role = Assistant,
     content = js (''Welcome! Please describe your dream campervan trip in Taiwan. ''
       @ ''**Crucially, include the start and end dates** so I can provide weather forecasts. ''
       @ ''For example: \"Plan a 7-day trip from Taipei to Kaohsiung, starting July 22nd, 2024, ''
       @ ''focusing on coastal views and seafood.\"'')\<rparr>"

definition initial_state :: app_state where
  "initial_state =
    \<lparr>messages = [initialMessage], prompt = [], isLoading = False, error = None,
     waypoints = [], pois = [], modalContent = None\<rparr>"

text \<open>
  \<open>getCurrentPosition\<close>. The device has no geolocation, or answers with a position, or
  answers with an error (the user refused, or any other failure), or never answers. A
  coordinate is a rational number. The result is \<open>None\<close> when the promise never settles,
  \<open>Inl\<close> the message of the error when it is rejected.
\<close>

record position =
  latitude :: rat
  longitude :: rat

datatype geolocation = Unsupported | Located position | Refused | Silent

definition getCurrentPosition :: "geolocation \<Rightarrow> (jsstring + position) option" where
  "getCurrentPosition geo =
    (case geo of
       Unsupported \<Rightarrow> Some (Inl (js ''Geolocation is not supported by your browser.''))
     | Located p \<Rightarrow> Some (Inr p)
     | Refused \<Rightarrow> Some (Inr \<lparr>latitude = 25033 / 1000, longitude = 1215654 / 10000\<rparr>)
     | Silent \<Rightarrow> None)"

text \<open>
  \<open>handleSubmit\<close> runs in steps, between which other events may take place. The first
  step, up to the first \<open>await\<close>: the new state, and the prompt of the round that starts
  (\<open>None\<close> when the submission is ignored).
\<close>

definition handleSubmit :: "app_state \<Rightarrow> app_state \<times> jsstring option" where
  "handleSubmit s =
    (if trim (prompt s) = [] \<or> isLoading s then (s, None)
     else
       (s\<lparr>error := None, isLoading := True,
          messages := messages s @ [\<lparr>role = User, content = prompt s\<rparr>],
          waypoints := [], pois := []\<rparr>,
        Some (prompt s)))"

text \<open>\<open>setError\<close> in an extractor, when it has a message.\<close>

definition report :: "jsstring option \<Rightarrow> app_state \<Rightarrow> app_state" where
  "report e s = (case e of None \<Rightarrow> s | Some msg \<Rightarrow> s\<lparr>error := Some msg\<rparr>)"

text \<open>
  The second step, when the position and the answer of the provider are there: \<open>Inl\<close> the
  message of the error that either threw, or \<open>Inr\<close> the raw response. The result is the
  new state and, when the enrichment is started, its arguments.
\<close>

definition round_settled ::
  "jsstring + jsstring \<Rightarrow> app_state \<Rightarrow> app_state \<times> (jsstring \<times> jsobject list \<times> jsstring) option" where
  "round_settled outcome s =
    (case outcome of
       Inl errorMessage \<Rightarrow>
         (s\<lparr>error := Some errorMessage,
            messages := messages s
              @ [\<lparr>role = Assistant, content = js ''Sorry, I ran into an error: '' @ errorMessage\<rparr>],
            isLoading := False, prompt := []\<rparr>,
          None)
     | Inr rawResponse \<Rightarrow>
         (let startDate = parseStartDateFromResponse rawResponse;
              (newWaypoints, e1) = parseWaypointsFromResponse rawResponse;
              (newPois, e2) = parsePoisFromResponse rawResponse;
              s1 = report e2 (report e1 s);
              s2 = s1\<lparr>waypoints := newWaypoints, pois := newPois,
                     messages := messages s1 @ [\<lparr>role = Assistant, content = rawResponse\<rparr>]\<rparr>
          in (s2\<lparr>isLoading := False, prompt := []\<rparr>,
              case startDate of
                None \<Rightarrow> None
              | Some d \<Rightarrow> if newWaypoints \<noteq> [] then Some (rawResponse, newWaypoints, d) else None)))"

text \<open>The third step, when the enrichment resolves with its text:
  \<open>setMessages(prev => [...prev.slice(0, -1), finalAssistantMessage])\<close>.\<close>

definition enrichment_resolved :: "jsstring \<Rightarrow> app_state \<Rightarrow> app_state" where
  "enrichment_resolved contentWithWeather s =
    s\<lparr>messages := butlast (messages s) @ [\<lparr>role = Assistant, content = contentWithWeather\<rparr>]\<rparr>"

definition handleClearHistory :: "app_state \<Rightarrow> app_state" where
  "handleClearHistory s = s\<lparr>messages := [initialMessage], waypoints := [], pois := [], error := None\<rparr>"

text \<open>
  The enrichment in the background (\<open>addWeatherToItinerary(...).then(...)\<close>), on the state
  in which it resolves: the requests it made and the new state. Nothing runs when the
  round started none; when the function throws, its promise is rejected and the state
  stays as it is.
\<close>

definition background ::
  "timezone \<Rightarrow> (jsstring \<Rightarrow> int option) \<Rightarrow> (nat \<Rightarrow> request \<Rightarrow> js_error + jsstring option)
    \<Rightarrow> (jsstring \<times> jsobject list \<times> jsstring) option \<Rightarrow> app_state \<Rightarrow> request list \<times> app_state" where
  "background tz engine gateway job s =
    (case job of
       None \<Rightarrow> ([], s)
     | Some (rawResponse, newWaypoints, startDate) \<Rightarrow>
         (case addWeatherToItinerary tz engine gateway rawResponse newWaypoints startDate of
            (reqs, Inr contentWithWeather) \<Rightarrow> (reqs, enrichment_resolved contentWithWeather s)
          | (reqs, Inl e) \<Rightarrow> (reqs, s)))"

text \<open>
  What the specification asks of the requests: heading \<open>i\<close> is looked up at waypoint
  \<open>i + 1\<close> if there is one and at the last waypoint otherwise, on the date of a given time.
\<close>

definition destination :: "jsobject list \<Rightarrow> nat \<Rightarrow> jsobject" where
  "destination wps i = (if i + 1 < length wps then wps ! (i + 1) else last wps)"

definition request_on :: "jsobject list \<Rightarrow> nat \<Rightarrow> int \<Rightarrow> request" where
  "request_on wps i t =
    (map_of (destination wps i) (js ''lat''), map_of (destination wps i) (js ''lng''),
     split_T_0 (toISOString t))"

text \<open>
  What the specification asks of the text of the enrichment: the itinerary is the text
  before the first heading and then, heading by heading, the heading and the text up to the
  next one; the enriched text has after every heading the line of its forecast, written
  for the place and the date of that heading, and is otherwise the same. \<open>placed\<close> says
  that the text of every heading occurs in the itinerary first as that heading.
\<close>

definition assemble :: "(jsstring \<times> jsstring) list \<Rightarrow> jsstring" where
  "assemble segs = concat (map (\<lambda>s. fst s @ snd s) segs)"

fun placed :: "jsstring \<Rightarrow> (jsstring \<times> jsstring) list \<Rightarrow> bool" where
  "placed D [] = True"
| "placed D (s # segs) =
    (find_first (fst s) (D @ fst s @ snd s @ assemble segs) = Some (D, snd s @ assemble segs)
     \<and> placed (D @ fst s @ snd s) segs)"

definition line_for ::
  "timezone \<Rightarrow> (nat \<Rightarrow> request \<Rightarrow> js_error + jsstring option) \<Rightarrow> jsobject list \<Rightarrow> nat \<Rightarrow> int option
    \<Rightarrow> jsstring" where
  "line_for tz gateway wps i cur =
    (case (location_for wps i, cur) of
       (Some location, Some t) \<Rightarrow>
         (case gateway i (map_of location (js ''lat''), map_of location (js ''lng''),
                 split_T_0 (toISOString t)) of
            Inr weatherInfo \<Rightarrow> weatherHtml weatherInfo
          | Inl e \<Rightarrow> [])
     | _ \<Rightarrow> [])"

fun annotated ::
  "timezone \<Rightarrow> (nat \<Rightarrow> request \<Rightarrow> js_error + jsstring option) \<Rightarrow> jsobject list \<Rightarrow> nat \<Rightarrow> int option
    \<Rightarrow> (jsstring \<times> jsstring) list \<Rightarrow> jsstring" where
  "annotated tz gateway wps i cur [] = []"
| "annotated tz gateway wps i cur (s # segs) =
    fst s @ line_for tz gateway wps i cur @ snd s
      @ annotated tz gateway wps (i + 1) (next_day tz cur) segs"

text \<open>What the specification asks of the last attempt of the repair parser: the text from
  the first opening bracket to the last closing bracket after it.\<close>

definition bracket_span :: "jsstring \<Rightarrow> jsstring option" where
  "bracket_span s =
    (case dropWhile (\<lambda>c. c \<noteq> 91) s of
       [] \<Rightarrow> None
     | c # r \<Rightarrow> if 93 \<in> set r then Some (c # rev (dropWhile (\<lambda>x. x \<noteq> 93) (rev r))) else None)"

text \<open>
  What the specification asks of the repair parser on arrays whose only defects are unquoted
  keys and trailing commas: the texts of such arrays, and the array that each stands for.

  A value is written with the white space of a layout, which gives for every depth of
  nesting the white space after an opening bracket or brace, after a comma, before and
  after a colon, and before a closing bracket or brace. An empty array or object is written
  without white space inside.
\<close>

record gaps =
  after_open :: jsstring
  after_comma :: jsstring
  before_colon :: jsstring
  after_colon :: jsstring
  before_close :: jsstring


text \<open>The items of an array or object after the first, and what closes the list: with
  \<open>comma\<close>, a comma follows the last item.\<close>

fun rest_items :: "bool \<Rightarrow> gaps \<Rightarrow> jsstring list \<Rightarrow> jsstring" where
  "rest_items comma g [] = (if comma then [44] else []) @ before_close g"
| "rest_items comma g (x # xs) = 44 # after_comma g @ x @ rest_items comma g xs"

fun all_items :: "bool \<Rightarrow> gaps \<Rightarrow> jsstring list \<Rightarrow> jsstring" where
  "all_items comma g [] = []"
| "all_items comma g (x # xs) = after_open g @ x @ rest_items comma g xs"









text \<open>The layouts of the repaired text: the first repair leaves no white space between a
  key it quotes and the colon, the second none between what precedes a comma it removes and
  the closing bracket or brace.\<close>

definition keys_tidied :: "bool \<Rightarrow> (nat \<Rightarrow> gaps) \<Rightarrow> nat \<Rightarrow> gaps" where
  "keys_tidied bare L n = (L n)\<lparr>before_colon := if bare then [] else before_colon (L n)\<rparr>"

definition commas_tidied :: "bool \<Rightarrow> (nat \<Rightarrow> gaps) \<Rightarrow> nat \<Rightarrow> gaps" where
  "commas_tidied comma L n = (L n)\<lparr>before_close := if comma then [] else before_close (L n)\<rparr>"

section \<open>Environments and inputs of the examples\<close>

text \<open>Taiwan: eight hours ahead of UTC all year.\<close>

definition taipei :: timezone where
  "taipei = \<lparr>utc_offset = (\<lambda>t. 28800000), local_offset = (\<lambda>t. 28800000)\<rparr>"

text \<open>Central Europe in the first half of 2024: one hour ahead of UTC until 2024-03-31 at
  01:00 UTC, two hours from then on (the local times from 02:00 to 03:00 of that day do not
  exist and are read with the offset before the change).\<close>

definition berlin :: timezone where
  "berlin =
    \<lparr>utc_offset = (\<lambda>t. if t < 1711846800000 then 3600000 else 7200000),
     local_offset = (\<lambda>t. if t < 1711846800000 + 7200000 then 3600000 else 7200000)\<rparr>"

text \<open>An engine that parses nothing but the date-only form.\<close>

definition strict_engine :: "jsstring \<Rightarrow> int option" where
  "strict_engine s = None"

definition wpA :: jsobject where
  "wpA = [(js ''name'', JString (js ''A'')), (js ''lat'', JNumber (js ''25.0'')), (js ''lng'', JNumber (js ''121.5''))]"

definition wpB :: jsobject where
  "wpB = [(js ''name'', JString (js ''B'')), (js ''lat'', JNumber (js ''24.7'')), (js ''lng'', JNumber (js ''121.7''))]"

definition wpC :: jsobject where
  "wpC = [(js ''name'', JString (js ''C'')), (js ''lat'', JNumber (js ''23.9'')), (js ''lng'', JNumber (js ''121.6''))]"

text \<open>A response with a start date, two day headings, three waypoints and no point of
  interest; and one with a start date and no waypoint.\<close>

definition plan_waypoints :: jsstring where
  "plan_waypoints =
    js (''{\"name\": \"A\", \"lat\": 25.0, \"lng\": 121.5}, ''
      @ ''{\"name\": \"B\", \"lat\": 24.7, \"lng\": 121.7}, ''
      @ ''{\"name\": \"C\", \"lat\": 23.9, \"lng\": 121.6}'')"

definition raw_plan :: jsstring where
  "raw_plan =
    js ''START_DATE: 2024-07-22'' @ [10] @ js ''## Day 1: A to B'' @ [10]
      @ js ''## Day 2: B to C'' @ [10]
      @ js ''WAYPOINTS: '' @ [91] @ plan_waypoints @ [93] @ [10] @ js ''POIS: []''"

text \<open>A response whose one waypoint has a closing bracket in its name; the waypoint.\<close>

definition station_waypoint :: jsstring where
  "station_waypoint = js ''{\"name\": \"Taipei [Main Station]\", \"lat\": 25.05, \"lng\": 121.52}''"

definition raw_station :: jsstring where
  "raw_station = js ''Plan.'' @ [10] @ js ''WAYPOINTS: '' @ [91] @ station_waypoint @ [93]"

definition wpStation :: jsobject where
  "wpStation =
    [(js ''name'', JString (js ''Taipei [Main Station]'')), (js ''lat'', JNumber (js ''25.05'')),
     (js ''lng'', JNumber (js ''121.52''))]"

definition raw_tips :: jsstring where
  "raw_tips =
    js ''START_DATE: 2024-07-22'' @ [10] @ js ''Try the beef noodles.'' @ [10]
      @ js ''WAYPOINTS: []'' @ [10] @ js ''POIS: []''"

text \<open>The state in which a round is under way: the welcome message, the message of the
  user, the loading flag set.\<close>

definition waiting_state :: app_state where
  "waiting_state = fst (handleSubmit (initial_state\<lparr>prompt := js ''Plan a trip''\<rparr>))"

text \<open>Itinerary texts: two days; three days; one day whose heading has two dollar signs.\<close>

definition two_days :: jsstring where
  "two_days = js ''## Day 1: A to B'' @ [10] @ js ''## Day 2: B to C''"




text \<open>Two days under one heading text.\<close>

definition same_days :: jsstring where
  "same_days = js ''## Day 1: A to B'' @ [10] @ js ''## Day 1: A to B''"

definition three_days :: jsstring where
  "three_days = js ''## Day 1: A'' @ [10] @ js ''## Day 2: B'' @ [10] @ js ''## Day 3: C''"

definition dollar_day :: jsstring where
  "dollar_day = js ''## Day 1: Night market ($$)''"

text \<open>A platform for the examples, which have whole numbers only: \<open>0\<close> is zero, the key
  and the rounded text of a whole number are its digits.\<close>

definition plain_platform :: platform where
  "plain_platform =
    \<lparr>number_is_zero = (\<lambda>n. n = js ''0''),
     property_key = (\<lambda>v. case v of Some (JNumber n) \<Rightarrow> n | _ \<Rightarrow> js ''undefined''),
     rounded = (\<lambda>v. case v of Some (JNumber n) \<Rightarrow> n | _ \<Rightarrow> js ''NaN'')\<rparr>"

text \<open>The data of a forecast (overcast, 25 to 31 degrees); a network that answers every
  request with it; and one that does so except for heading \<open>j\<close>, where the request fails.\<close>

definition overcast :: json where
  "overcast =
    JObject [(js ''daily'',
      JObject [(js ''weathercode'', JArray [JNumber (js ''3'')]),
               (js ''temperature_2m_max'', JArray [JNumber (js ''31'')]),
               (js ''temperature_2m_min'', JArray [JNumber (js ''25'')])])]"

definition network_up :: "nat \<Rightarrow> request \<Rightarrow> js_error + response" where
  "network_up i req = Inr (Response True (Inr overcast))"

definition network_down_at :: "nat \<Rightarrow> nat \<Rightarrow> request \<Rightarrow> js_error + response" where
  "network_down_at j i req = (if i = j then Inl TypeError else Inr (Response True (Inr overcast)))"

definition overcast_text :: jsstring where
  "overcast_text = [9729, 65039] @ js '' Overcast, 25'' @ [176] @ js ''C to 31'' @ [176, 67]"

section \<open>Evaluation\<close>

lemmas char_defs = js_def is_digit_def is_word_def is_space_def is_line_terminator_def
  is_json_ws_def

lemmas json_defs = JSON_parse_def json_number_def hex_val_def json_escape_def

lemmas extract_defs = parseWaypointsFromResponse_def parsePoisFromResponse_def
  parseStartDateFromResponse_def labelled_array_at_def strip_prefix_def validated_def
  parseAndCleanJson_def start_date_at_def is_date_token_def

lemmas date_defs = new_Date_def parse_date_only_def is_date_token_def digits_value_def
  days_in_month_def MakeDate_def MakeDay_def DayFromYear_def DaysInYear_def month_start_def
  msPerDay_def toISOString_def split_T_0_def YearFromTime_def Day_def MonthFromTime_def
  DateFromTime_def DayWithinYear_def InLeapYear_def TimeWithinDay_def TimeClip_def pad2_def
  pad3_def pad4_def pad6_def digit_def getDate_def setDate_def LocalTime_def UTC_def
  next_day_def

lemma raw_plan_start_date: "parseStartDateFromResponse raw_plan = Some (js ''2024-07-22'')"
  by (simp add: raw_plan_def plan_waypoints_def char_defs extract_defs)

lemma raw_plan_waypoints: "parseWaypointsFromResponse raw_plan = ([wpA, wpB, wpC], None)"
  by (simp add: raw_plan_def plan_waypoints_def char_defs extract_defs json_defs wpA_def wpB_def wpC_def Let_def)

lemma raw_plan_pois: "parsePoisFromResponse raw_plan = ([], None)"
  by (simp add: raw_plan_def plan_waypoints_def char_defs extract_defs json_defs)

lemma raw_tips_start_date: "parseStartDateFromResponse raw_tips = Some (js ''2024-07-22'')"
  by (simp add: raw_tips_def char_defs extract_defs)

lemma raw_tips_waypoints: "parseWaypointsFromResponse raw_tips = ([], None)"
  by (simp add: raw_tips_def char_defs extract_defs json_defs)

lemma raw_tips_pois: "parsePoisFromResponse raw_tips = ([], None)"
  by (simp add: raw_tips_def char_defs extract_defs json_defs)

section \<open>Rejected submissions\<close>

lemma trim_blank: "list_all is_space p \<Longrightarrow> trim p = []"
proof -
  assume "list_all is_space p"
  then have d: "dropWhile is_space p = []"
    by (induction p) simp_all
  show ?thesis
    unfolding trim_def d by simp
qed

text \<open>
  C9. A submission whose prompt is empty or consists of white space only, or that is made
  while the loading flag is set, changes nothing in the state and starts no round (no
  request to the provider).
\<close>

theorem rejected_submission_is_noop:
  "list_all is_space (prompt s) \<or> isLoading s \<Longrightarrow> handleSubmit s = (s, None)"
  by (auto simp: handleSubmit_def trim_blank)

theorem rejected_submission_is_noop_witness:
  "handleSubmit (initial_state\<lparr>prompt := js ''  ''\<rparr>) = (initial_state\<lparr>prompt := js ''  ''\<rparr>, None)
   \<and> handleSubmit (initial_state\<lparr>prompt := js ''Plan a trip'', isLoading := True\<rparr>)
       = (initial_state\<lparr>prompt := js ''Plan a trip'', isLoading := True\<rparr>, None)"
proof -
  have blank: "list_all is_space (prompt (initial_state\<lparr>prompt := js ''  ''\<rparr>))"
    by (simp add: js_def is_space_def)
  have busy: "isLoading (initial_state\<lparr>prompt := js ''Plan a trip'', isLoading := True\<rparr>)"
    by simp
  show ?thesis
    using rejected_submission_is_noop [of "initial_state\<lparr>prompt := js ''  ''\<rparr>"] blank
      rejected_submission_is_noop [of "initial_state\<lparr>prompt := js ''Plan a trip'', isLoading := True\<rparr>"] busy
    by blast
qed

section \<open>An invalid start date\<close>

text \<open>
  C5. When the start date does not parse to a date, \<open>addWeatherToItinerary\<close> returns the
  itinerary text as it came, makes no forecast request and throws nothing.
\<close>

theorem invalid_start_date_returns_input:
  "new_Date engine startDateStr = None \<Longrightarrow>
     addWeatherToItinerary tz engine gateway itineraryText wps startDateStr = ([], Inr itineraryText)"
  by (simp add: addWeatherToItinerary_def)

lemma new_Date_month_13: "new_Date strict_engine (js ''2024-13-45'') = None"
  by (simp add: new_Date_def parse_date_only_def is_date_token_def is_digit_def js_def
      digits_value_def strict_engine_def)

theorem invalid_start_date_returns_input_witness:
  "addWeatherToItinerary taipei strict_engine (\<lambda>i req. Inr None) (js ''## Day 1: Taipei'') [wpA, wpB]
     (js ''2024-13-45'') = ([], Inr (js ''## Day 1: Taipei''))"
  using invalid_start_date_returns_input [OF new_Date_month_13] by simp

section \<open>When the enrichment starts\<close>

text \<open>
  C8. A round whose response arrived starts the enrichment in the background if and only
  if a start date was extracted and at least one waypoint was. Without a start date or
  without a waypoint, whatever the state is later, no request goes to the forecast gateway
  and no message is replaced, and the raw response is the message the round added last.
\<close>

theorem enrichment_started_iff:
  "(snd (round_settled (Inr raw) s) \<noteq> None)
     = (parseStartDateFromResponse raw \<noteq> None \<and> fst (parseWaypointsFromResponse raw) \<noteq> [])
   \<and> (parseStartDateFromResponse raw = None \<or> fst (parseWaypointsFromResponse raw) = [] \<longrightarrow>
        background tz engine gateway (snd (round_settled (Inr raw) s)) s' = ([], s')
        \<and> messages (fst (round_settled (Inr raw) s))
            = messages s @ [\<lparr>role = Assistant, content = raw\<rparr>])"
  by (auto simp: round_settled_def background_def report_def Let_def
      split: prod.splits option.splits)

theorem enrichment_started_iff_witness:
  "snd (round_settled (Inr raw_plan) waiting_state) \<noteq> None
   \<and> snd (round_settled (Inr raw_tips) waiting_state) = None
   \<and> background taipei strict_engine (\<lambda>i req. Inr None)
        (snd (round_settled (Inr raw_tips) waiting_state)) initial_state = ([], initial_state)
   \<and> messages (fst (round_settled (Inr raw_tips) waiting_state))
        = messages waiting_state @ [\<lparr>role = Assistant, content = raw_tips\<rparr>]"
proof -
  note plan = enrichment_started_iff
    [of raw_plan waiting_state taipei strict_engine "\<lambda>i req. Inr None" initial_state]
  note tips = enrichment_started_iff
    [of raw_tips waiting_state taipei strict_engine "\<lambda>i req. Inr None" initial_state]
  have started: "snd (round_settled (Inr raw_plan) waiting_state) \<noteq> None"
    using plan by (simp add: raw_plan_start_date raw_plan_waypoints)
  have idle: "snd (round_settled (Inr raw_tips) waiting_state) = None"
  proof (cases "snd (round_settled (Inr raw_tips) waiting_state)")
    case None
    then show ?thesis .
  next
    case (Some job)
    with tips show ?thesis by (simp add: raw_tips_waypoints)
  qed
  from tips have "background taipei strict_engine (\<lambda>i req. Inr None)
        (snd (round_settled (Inr raw_tips) waiting_state)) initial_state = ([], initial_state)
      \<and> messages (fst (round_settled (Inr raw_tips) waiting_state))
        = messages waiting_state @ [\<lparr>role = Assistant, content = raw_tips\<rparr>]"
    by (simp add: raw_tips_waypoints)
  with started idle show ?thesis by simp
qed

section \<open>The device location\<close>

text \<open>
  C7, as the source has it. When the geolocation service answers with an error (the user
  refused, or any other failure), the operation resolves with the fixed coordinates
  25.0330, 121.5654. When the device has no geolocation, the operation is rejected with
  an error, and the round ends with the message of that error as the error of the state
  and in a message of the assistant.
\<close>

theorem location_default_on_refusal_only:
  "getCurrentPosition Refused = Some (Inr \<lparr>latitude = 25033 / 1000, longitude = 1215654 / 10000\<rparr>)
   \<and> getCurrentPosition Unsupported = Some (Inl (js ''Geolocation is not supported by your browser.''))
   \<and> round_settled (Inl (js ''Geolocation is not supported by your browser.'')) s
       = (s\<lparr>error := Some (js ''Geolocation is not supported by your browser.''),
             messages := messages s
               @ [\<lparr>role = Assistant,
                   content = js ''Sorry, I ran into an error: ''
                     @ js ''Geolocation is not supported by your browser.''\<rparr>],
             isLoading := False, prompt := []\<rparr>,
          None)"
  by (simp add: getCurrentPosition_def round_settled_def)

text \<open>C7 as the claim has it fails: without geolocation the operation does not resolve
  with the default coordinates, it is rejected.\<close>

theorem location_unsupported_is_an_error:
  "getCurrentPosition Unsupported
     \<noteq> Some (Inr \<lparr>latitude = 25033 / 1000, longitude = 1215654 / 10000\<rparr>)
   \<and> (\<exists>msg. getCurrentPosition Unsupported = Some (Inl msg))"
  by (simp add: getCurrentPosition_def)

section \<open>Clearing the history during an enrichment\<close>

text \<open>
  C2, as the source has it. When the history is cleared while an enrichment is under way
  and the enrichment then resolves, its message replaces the last message of the history
  as it is then: the history is the enriched message alone, in the place of the welcome
  message. The waypoints, the points of interest and the error stay cleared.
\<close>

theorem stale_enrichment_replaces_welcome:
  "messages (enrichment_resolved contentWithWeather (handleClearHistory s))
     = [\<lparr>role = Assistant, content = contentWithWeather\<rparr>]
   \<and> waypoints (enrichment_resolved contentWithWeather (handleClearHistory s)) = []
   \<and> pois (enrichment_resolved contentWithWeather (handleClearHistory s)) = []
   \<and> error (enrichment_resolved contentWithWeather (handleClearHistory s)) = None"
  by (simp add: enrichment_resolved_def handleClearHistory_def)

text \<open>C2 as the claim has it fails. A round starts, its response arrives and starts the
  enrichment, the history is cleared, the enrichment resolves: the history is not the
  welcome message.\<close>

lemma raw_plan_headings: "dayHeadings raw_plan = [js ''## Day 1: A to B'', js ''## Day 2: B to C'']"
  by (simp add: dayHeadings_def day_heading_at_def raw_plan_def plan_waypoints_def char_defs strip_prefix_def)

lemma date_2024_07_22: "new_Date strict_engine (js ''2024-07-22'') = Some 1721606400000"
  by (simp add: date_defs char_defs)

lemma iso_2024_07_22: "split_T_0 (toISOString 1721606400000) = js ''2024-07-22''"
  by (simp add: date_defs char_defs)

lemma taipei_next_2024_07_22: "next_day taipei (Some 1721606400000) = Some 1721692800000"
  unfolding next_day_def getDate_def setDate_def Let_def
  by (simp add: date_defs taipei_def)

lemma iso_2024_07_23: "split_T_0 (toISOString 1721692800000) = js ''2024-07-23''"
  by (simp add: date_defs char_defs)

lemma raw_plan_enriched:
  "addWeatherToItinerary taipei strict_engine (\<lambda>i req. Inr None) raw_plan [wpA, wpB, wpC]
     (js ''2024-07-22'')
   = ([(Some (JNumber (js ''24.7'')), Some (JNumber (js ''121.7'')), js ''2024-07-22''),
       (Some (JNumber (js ''23.9'')), Some (JNumber (js ''121.6'')), js ''2024-07-23'')],
      Inr (js ''START_DATE: 2024-07-22'' @ [10] @ js ''## Day 1: A to B'' @ weatherHtml None @ [10]
        @ js ''## Day 2: B to C'' @ weatherHtml None @ [10]
        @ js ''WAYPOINTS: '' @ [91] @ plan_waypoints @ [93] @ [10] @ js ''POIS: []''))"
  unfolding addWeatherToItinerary_def raw_plan_headings date_2024_07_22
  by (simp add: iso_2024_07_22 taipei_next_2024_07_22 iso_2024_07_23 location_for_def wpA_def
      wpB_def wpC_def Let_def js_def replace_first_def weatherHtml_def unavailable_def raw_plan_def
      plan_waypoints_def)

lemma raw_plan_job:
  "snd (round_settled (Inr raw_plan) waiting_state) = Some (raw_plan, [wpA, wpB, wpC], js ''2024-07-22'')"
  by (simp add: round_settled_def raw_plan_start_date raw_plan_waypoints raw_plan_pois Let_def)

theorem stale_enrichment_overwrites_cleared_history:
  "messages (snd (background taipei strict_engine (\<lambda>i req. Inr None)
       (snd (round_settled (Inr raw_plan) waiting_state))
       (handleClearHistory (fst (round_settled (Inr raw_plan) waiting_state)))))
     \<noteq> [initialMessage]"
proof -
  have "hd (content (hd (messages (snd (background taipei strict_engine (\<lambda>i req. Inr None)
       (snd (round_settled (Inr raw_plan) waiting_state))
       (handleClearHistory (fst (round_settled (Inr raw_plan) waiting_state)))))))) = 83"
    unfolding raw_plan_job
    by (simp add: background_def raw_plan_enriched enrichment_resolved_def
        handleClearHistory_def) (simp add: js_def)
  moreover have "hd (content (hd [initialMessage])) = 87"
    by (simp add: initialMessage_def js_def)
  ultimately show ?thesis
    by auto
qed

section \<open>Failures of the forecast gateway\<close>

lemma getWeatherForecast_returns: "\<exists>r. getWeatherForecast pf fetch req = Inr r"
  by (simp add: getWeatherForecast_def split: sum.splits)

lemma getWeatherForecast_network_error:
  "fetch req = Inl e \<Longrightarrow> getWeatherForecast pf fetch req = Inr None"
  by (simp add: getWeatherForecast_def forecast_attempt_def and_then_def)

text \<open>The loop uses what the gateway returns only through the line it writes for it.\<close>

lemma enrich_from_cong:
  "(\<And>k r. i \<le> k \<Longrightarrow> map_sum id weatherHtml (g k r) = map_sum id weatherHtml (g' k r)) \<Longrightarrow>
     enrich_from tz g wps i hs cur upd reqs = enrich_from tz g' wps i hs cur upd reqs"
proof (induction hs arbitrary: i cur upd reqs)
  case Nil
  show ?case by simp
next
  case (Cons h hs)
  have later: "map_sum id weatherHtml (g k r) = map_sum id weatherHtml (g' k r)"
    if "Suc i \<le> k" for k r
    by (rule Cons.prems) (use that in simp)
  note IH = Cons.IH [OF later]
  show ?case
  proof (cases "location_for wps i")
    case None
    then show ?thesis using IH by simp
  next
    case (Some loc)
    show ?thesis
    proof (cases cur)
      case None
      with Some show ?thesis by simp
    next
      case (Some t)
      define req where
        "req = (map_of loc (js ''lat''), map_of loc (js ''lng''), split_T_0 (toISOString t))"
      have same: "map_sum id weatherHtml (g i req) = map_sum id weatherHtml (g' i req)"
        by (rule Cons.prems) simp
      show ?thesis
      proof (cases "g i req")
        case (Inl e)
        with same have "g' i req = Inl e" by (cases "g' i req") simp_all
        with Inl \<open>location_for wps i = Some loc\<close> Some show ?thesis
          by (simp add: req_def Let_def)
      next
        case (Inr w)
        with same obtain w' where w': "g' i req = Inr w'" "weatherHtml w = weatherHtml w'"
          by (cases "g' i req") simp_all
        with Inr \<open>location_for wps i = Some loc\<close> Some IH show ?thesis
          by (simp add: req_def Let_def)
      qed
    qed
  qed
qed

text \<open>With gateways that do not throw, the requests made and whether the loop ends with a
  text do not depend on what the gateways return.\<close>

lemma enrich_from_requests:
  "(\<And>k r. \<exists>w. g k r = Inr w) \<Longrightarrow> (\<And>k r. \<exists>w. g' k r = Inr w) \<Longrightarrow>
     fst (enrich_from tz g wps i hs cur upd reqs) = fst (enrich_from tz g' wps i hs cur upd' reqs)
     \<and> isl (snd (enrich_from tz g wps i hs cur upd reqs))
         = isl (snd (enrich_from tz g' wps i hs cur upd' reqs))"
proof (induction hs arbitrary: i cur upd upd' reqs)
  case Nil
  show ?case by simp
next
  case (Cons h hs)
  note IH = Cons.IH [OF Cons.prems]
  show ?case
  proof (cases "location_for wps i")
    case None
    then show ?thesis using IH by simp
  next
    case (Some loc)
    show ?thesis
    proof (cases cur)
      case None
      with Some show ?thesis by simp
    next
      case (Some t)
      define req where
        "req = (map_of loc (js ''lat''), map_of loc (js ''lng''), split_T_0 (toISOString t))"
      obtain w w' where "g i req = Inr w" "g' i req = Inr w'"
        using Cons.prems by blast
      with \<open>location_for wps i = Some loc\<close> Some IH show ?thesis
        by (simp add: req_def Let_def)
    qed
  qed
qed

text \<open>
  The gateway never throws: when its request fails, it returns none. Let the lookup
  for heading \<open>j\<close> fail on a network, and let another network differ from it at most for
  that heading. Then the enrichment on the first network is, in its requests, in its text
  and in its outcome, the enrichment in which the gateway answered heading \<open>j\<close> with the
  text of the marker and every other heading as on the second network; both networks get
  the same requests, and the enrichment ends with a text on one if and only if it does on
  the other.
\<close>

lemma gateway_failure_is_local:
  assumes "\<forall>i. i \<noteq> j \<longrightarrow> net i = net' i"
    and "\<forall>req. getWeatherForecast pf (net j) req = Inr None"
  shows "(\<exists>r. getWeatherForecast pf fetch q = Inr r)
    \<and> (fetch q = Inl e \<longrightarrow> getWeatherForecast pf fetch q = Inr None)
    \<and> addWeatherToItinerary tz engine (\<lambda>i. getWeatherForecast pf (net i)) txt wps d
        = addWeatherToItinerary tz engine
            (\<lambda>i req. if i = j then Inr (Some unavailable) else getWeatherForecast pf (net' i) req)
            txt wps d
    \<and> fst (addWeatherToItinerary tz engine (\<lambda>i. getWeatherForecast pf (net i)) txt wps d)
        = fst (addWeatherToItinerary tz engine (\<lambda>i. getWeatherForecast pf (net' i)) txt wps d)
    \<and> isl (snd (addWeatherToItinerary tz engine (\<lambda>i. getWeatherForecast pf (net i)) txt wps d))
        = isl (snd (addWeatherToItinerary tz engine (\<lambda>i. getWeatherForecast pf (net' i)) txt wps d))"
proof -
  have marker: "weatherHtml None = weatherHtml (Some unavailable)"
    by (simp add: weatherHtml_def unavailable_def)
  have lines: "map_sum id weatherHtml (getWeatherForecast pf (net k) r)
      = map_sum id weatherHtml
          (if k = j then Inr (Some unavailable) else getWeatherForecast pf (net' k) r)" for k r
  proof (cases "k = j")
    case True
    from assms(2) have "getWeatherForecast pf (net j) r = Inr None"
      by blast
    with True marker show ?thesis
      by simp
  next
    case False
    with assms(1) have "net k = net' k"
      by blast
    with False show ?thesis
      by simp
  qed
  have same_run: "addWeatherToItinerary tz engine (\<lambda>i. getWeatherForecast pf (net i)) txt wps d
      = addWeatherToItinerary tz engine
          (\<lambda>i req. if i = j then Inr (Some unavailable) else getWeatherForecast pf (net' i) req)
          txt wps d"
    unfolding addWeatherToItinerary_def
    by (cases "new_Date engine d") (simp_all add: enrich_from_cong [OF lines])
  have same_requests:
    "fst (addWeatherToItinerary tz engine (\<lambda>i. getWeatherForecast pf (net i)) txt wps d)
       = fst (addWeatherToItinerary tz engine (\<lambda>i. getWeatherForecast pf (net' i)) txt wps d)
     \<and> isl (snd (addWeatherToItinerary tz engine (\<lambda>i. getWeatherForecast pf (net i)) txt wps d))
       = isl (snd (addWeatherToItinerary tz engine (\<lambda>i. getWeatherForecast pf (net' i)) txt wps d))"
    unfolding addWeatherToItinerary_def
    by (cases "new_Date engine d")
      (simp_all add: enrich_from_requests [OF getWeatherForecast_returns getWeatherForecast_returns])
  show ?thesis
    using getWeatherForecast_returns [of pf fetch q] getWeatherForecast_network_error [of fetch q e pf]
      same_run same_requests
    by blast
qed

lemma two_days_headings: "dayHeadings two_days = [js ''## Day 1: A to B'', js ''## Day 2: B to C'']"
  by (simp add: dayHeadings_def day_heading_at_def two_days_def char_defs strip_prefix_def)

lemma overcast_forecast:
  "getWeatherForecast plain_platform (network_up i) req = Inr (Some overcast_text)"
  by (simp add: getWeatherForecast_def forecast_attempt_def and_then_def network_up_def
      overcast_def plain_platform_def weatherInfo_of_def WMO_CODE_MAP_def overcast_text_def js_def)

lemma failed_forecast:
  "getWeatherForecast plain_platform (network_down_at j j) req = Inr None"
  by (simp add: getWeatherForecast_network_error network_down_at_def)

lemma later_forecast:
  "i \<noteq> j \<Longrightarrow> getWeatherForecast plain_platform (network_down_at j i) req = Inr (Some overcast_text)"
  by (simp add: getWeatherForecast_def forecast_attempt_def and_then_def network_down_at_def
      overcast_def plain_platform_def weatherInfo_of_def WMO_CODE_MAP_def overcast_text_def js_def)

text \<open>The first of two days fails: its heading gets the marker, the other its forecast.\<close>

lemma first_day_fails:
  "addWeatherToItinerary taipei strict_engine
     (\<lambda>i. getWeatherForecast plain_platform (network_down_at 0 i)) two_days [wpA, wpB, wpC]
     (js ''2024-07-22'')
   = ([(Some (JNumber (js ''24.7'')), Some (JNumber (js ''121.7'')), js ''2024-07-22''),
       (Some (JNumber (js ''23.9'')), Some (JNumber (js ''121.6'')), js ''2024-07-23'')],
      Inr (js ''## Day 1: A to B'' @ [10, 10] @ js ''**Weather Forecast:** '' @ unavailable @ [10]
        @ js ''## Day 2: B to C'' @ [10, 10] @ js ''**Weather Forecast:** '' @ overcast_text))"
  unfolding addWeatherToItinerary_def two_days_headings date_2024_07_22
  by (simp add: iso_2024_07_22 taipei_next_2024_07_22 iso_2024_07_23 location_for_def wpA_def
      wpB_def wpC_def Let_def failed_forecast later_forecast)
    (simp add: js_def replace_first_def weatherHtml_def unavailable_def two_days_def
      overcast_text_def)

lemma gateway_failure_is_local_example:
  "(\<exists>r. getWeatherForecast plain_platform (network_down_at 0 0) (None, None, js ''2024-07-22'') = Inr r)
   \<and> getWeatherForecast plain_platform (network_down_at 0 0) (None, None, js ''2024-07-22'') = Inr None
   \<and> addWeatherToItinerary taipei strict_engine
        (\<lambda>i. getWeatherForecast plain_platform (network_down_at 0 i)) two_days [wpA, wpB, wpC]
        (js ''2024-07-22'')
      = addWeatherToItinerary taipei strict_engine
          (\<lambda>i req. if i = 0 then Inr (Some unavailable)
                    else getWeatherForecast plain_platform (network_up i) req)
          two_days [wpA, wpB, wpC] (js ''2024-07-22'')
   \<and> fst (addWeatherToItinerary taipei strict_engine
        (\<lambda>i. getWeatherForecast plain_platform (network_down_at 0 i)) two_days [wpA, wpB, wpC]
        (js ''2024-07-22''))
      = fst (addWeatherToItinerary taipei strict_engine
          (\<lambda>i. getWeatherForecast plain_platform (network_up i)) two_days [wpA, wpB, wpC]
          (js ''2024-07-22''))
   \<and> isl (snd (addWeatherToItinerary taipei strict_engine
        (\<lambda>i. getWeatherForecast plain_platform (network_down_at 0 i)) two_days [wpA, wpB, wpC]
        (js ''2024-07-22'')))
      = isl (snd (addWeatherToItinerary taipei strict_engine
          (\<lambda>i. getWeatherForecast plain_platform (network_up i)) two_days [wpA, wpB, wpC]
          (js ''2024-07-22'')))"
proof -
  have agree: "\<forall>i. i \<noteq> 0 \<longrightarrow> network_down_at 0 i = network_up i"
    by (auto simp: network_down_at_def network_up_def fun_eq_iff)
  have fails: "\<forall>req. getWeatherForecast plain_platform (network_down_at 0 0) req = Inr None"
    by (simp add: failed_forecast)
  have down: "network_down_at 0 0 (None, None, js ''2024-07-22'') = Inl TypeError"
    by (simp add: network_down_at_def)
  show ?thesis
    using gateway_failure_is_local [OF agree fails, of "network_down_at 0 0"
        "(None, None, js ''2024-07-22'')" TypeError taipei strict_engine two_days
        "[wpA, wpB, wpC]" "js ''2024-07-22''"] down
    by blast
qed

lemma same_days_headings: "dayHeadings same_days = [js ''## Day 1: A to B'', js ''## Day 1: A to B'']"
  by (simp add: dayHeadings_def day_heading_at_def same_days_def char_defs strip_prefix_def)

text \<open>
  C6, on the code. The itinerary has the same heading text for two days and the lookup
  for the second of them fails. Nothing is thrown and both lookups are made, but the
  marker is put after the first occurrence of the heading text, which is the heading of
  the first day: that heading gets the marker and then its own forecast, and the heading
  of the failing day gets nothing.
\<close>

theorem repeated_heading_gets_no_marker:
  "addWeatherToItinerary taipei strict_engine
     (\<lambda>i. getWeatherForecast plain_platform (network_down_at 1 i)) same_days [wpA, wpB, wpC]
     (js ''2024-07-22'')
   = ([(Some (JNumber (js ''24.7'')), Some (JNumber (js ''121.7'')), js ''2024-07-22''),
       (Some (JNumber (js ''23.9'')), Some (JNumber (js ''121.6'')), js ''2024-07-23'')],
      Inr (js ''## Day 1: A to B'' @ [10, 10] @ js ''**Weather Forecast:** '' @ unavailable
        @ [10, 10] @ js ''**Weather Forecast:** '' @ overcast_text @ [10]
        @ js ''## Day 1: A to B''))"
  unfolding addWeatherToItinerary_def same_days_headings date_2024_07_22
  by (simp add: iso_2024_07_22 taipei_next_2024_07_22 iso_2024_07_23 location_for_def wpA_def
      wpB_def wpC_def Let_def failed_forecast later_forecast)
    (simp add: js_def replace_first_def weatherHtml_def unavailable_def same_days_def
      overcast_text_def)

section \<open>The dates of the requests\<close>

lemma MonthFromTime_range: "0 \<le> MonthFromTime t \<and> MonthFromTime t \<le> 11"
  by (simp add: MonthFromTime_def Let_def)

text \<open>Where local time is at a constant offset from UTC, the next day is 24 hours later.\<close>

lemma setDate_next_constant:
  assumes "utc_offset tz = (\<lambda>t. c)" and "local_offset tz = (\<lambda>t. c)"
  shows "setDate tz t (getDate tz t + 1) = TimeClip (t + msPerDay)"
proof -
  define lt where "lt = t + c"
  have m: "MonthFromTime lt div 12 = 0" "MonthFromTime lt mod 12 = MonthFromTime lt"
    using MonthFromTime_range [of lt] by auto
  have day: "MakeDay (YearFromTime lt) (MonthFromTime lt) (DateFromTime lt + 1) = Day lt + 1"
    by (simp add: MakeDay_def m DateFromTime_def DayWithinYear_def InLeapYear_def Let_def)
  have "MakeDate (Day lt + 1) (TimeWithinDay lt) = lt + msPerDay"
    by (simp add: MakeDate_def Day_def TimeWithinDay_def algebra_simps)
  with day show ?thesis
    by (simp add: setDate_def getDate_def LocalTime_def UTC_def assms lt_def Let_def)
qed

lemma enrich_from_constant_offset:
  assumes tz: "utc_offset tz = (\<lambda>t. c)" "local_offset tz = (\<lambda>t. c)"
    and g: "\<And>k r. \<exists>w. g k r = Inr w"
    and wps: "wps \<noteq> []"
  shows "- 8640000000000000 \<le> t \<Longrightarrow> t + int (length hs) * msPerDay \<le> 8640000000000000 \<Longrightarrow>
    fst (enrich_from tz g wps i hs (Some t) upd reqs)
      = reqs @ map (\<lambda>k. request_on wps (i + k) (t + int k * msPerDay)) [0..<length hs]"
proof (induction hs arbitrary: i t upd reqs)
  case Nil
  show ?case by simp
next
  case (Cons h hs)
  have loc: "location_for wps i = Some (destination wps i)"
    using wps by (simp add: location_for_def destination_def)
  obtain w where w: "g i (request_on wps i t) = Inr w"
    using g by blast
  have pos: "0 < msPerDay" by (simp add: msPerDay_def)
  have le: "t + msPerDay \<le> t + int (length (h # hs)) * msPerDay"
    using pos by (simp add: algebra_simps)
  have up: "t + msPerDay \<le> 8640000000000000"
    using le Cons.prems(2) by (rule order_trans)
  have b1: "- 8640000000000000 \<le> t + msPerDay" using Cons.prems pos by simp
  have nxt: "next_day tz (Some t) = Some (t + msPerDay)"
    using up b1 by (simp add: next_day_def setDate_next_constant [OF tz] TimeClip_def)
  have b2: "t + msPerDay + int (length hs) * msPerDay \<le> 8640000000000000"
    using Cons.prems by (simp add: algebra_simps)
  have shift: "map (\<lambda>k. request_on wps (i + k) (t + int k * msPerDay)) [0..<length (h # hs)]
      = request_on wps i t
        # map (\<lambda>k. request_on wps (Suc i + k) (t + msPerDay + int k * msPerDay)) [0..<length hs]"
    by (simp add: upt_conv_Cons map_Suc_upt [symmetric] algebra_simps del: upt_Suc)
  show ?case
    using loc w nxt Cons.IH [OF b1 b2] shift
    by (simp add: request_on_def Let_def)
qed

text \<open>
  Where local time is at a constant offset from UTC (as in Taiwan), with a gateway that
  does not throw and a list of waypoints that is not empty: heading \<open>i\<close> is looked up at
  its destination, on the date \<open>i\<close> days after the start date, as long as the dates stay
  in the range of \<open>Date\<close>.
\<close>

lemma requests_with_constant_offset:
  assumes "utc_offset tz = (\<lambda>t. c)" and "local_offset tz = (\<lambda>t. c)"
    and "\<And>k r. \<exists>w. g k r = Inr w"
    and "wps \<noteq> []"
    and "new_Date engine d = Some t0"
    and "- 8640000000000000 \<le> t0"
    and "t0 + int (length (dayHeadings txt)) * msPerDay \<le> 8640000000000000"
  shows "fst (addWeatherToItinerary tz engine g txt wps d)
    = map (\<lambda>i. request_on wps i (t0 + int i * msPerDay)) [0..<length (dayHeadings txt)]"
proof -
  note loop = enrich_from_constant_offset
    [OF assms(1) assms(2) assms(3) assms(4) assms(6) assms(7)]
  show ?thesis
    using loop [where i = 0 and upd = "txt" and reqs = "[]"] assms(5)
    by (simp add: addWeatherToItinerary_def)
qed

text \<open>
  C1 fails on the source where the offset of local time changes: \<open>setDate\<close> and \<open>getDate\<close>
  count days in local time, \<open>toISOString\<close> writes the date in UTC. In central Europe, with
  the start date 2024-03-30 and three headings, the second and the third request both
  carry the date 2024-03-31 (the cursor is at 2024-03-31 23:00 UTC for the third).
\<close>

lemma three_days_headings:
  "dayHeadings three_days = [js ''## Day 1: A'', js ''## Day 2: B'', js ''## Day 3: C'']"
  by (simp add: dayHeadings_def day_heading_at_def three_days_def char_defs strip_prefix_def)

lemma date_2024_03_30: "new_Date strict_engine (js ''2024-03-30'') = Some 1711756800000"
  by (simp add: date_defs char_defs)

lemma berlin_next_2024_03_30: "next_day berlin (Some 1711756800000) = Some 1711843200000"
  unfolding next_day_def getDate_def setDate_def Let_def
  by (simp add: date_defs berlin_def)

lemma berlin_next_2024_03_31: "next_day berlin (Some 1711843200000) = Some 1711926000000"
  unfolding next_day_def getDate_def setDate_def Let_def
  by (simp add: date_defs berlin_def)

lemma iso_2024_03_30: "toISOString 1711756800000 = js ''2024-03-30T00:00:00.000Z''"
  by (simp add: date_defs char_defs)

lemma iso_2024_03_31: "toISOString 1711843200000 = js ''2024-03-31T00:00:00.000Z''"
  by (simp add: date_defs char_defs)

lemma iso_2024_03_31_late: "toISOString 1711926000000 = js ''2024-03-31T23:00:00.000Z''"
  by (simp add: date_defs char_defs)

theorem dst_change_repeats_a_date:
  "fst (addWeatherToItinerary berlin strict_engine (\<lambda>i req. Inr None) three_days [wpA, wpB]
         (js ''2024-03-30''))
   = [(Some (JNumber (js ''24.7'')), Some (JNumber (js ''121.7'')), js ''2024-03-30''),
      (Some (JNumber (js ''24.7'')), Some (JNumber (js ''121.7'')), js ''2024-03-31''),
      (Some (JNumber (js ''24.7'')), Some (JNumber (js ''121.7'')), js ''2024-03-31'')]"
  unfolding addWeatherToItinerary_def three_days_headings date_2024_03_30
  by (simp add: berlin_next_2024_03_30 berlin_next_2024_03_31 iso_2024_03_30 iso_2024_03_31
      iso_2024_03_31_late location_for_def wpA_def wpB_def Let_def)
    (simp add: js_def split_T_0_def)

section \<open>What the enrichment does to the text\<close>

text \<open>
  C10 fails on the source where a heading has a dollar sign before a dollar sign, an
  ampersand, a backquote or a quote: the heading is part of the replacement that
  \<open>replace\<close> expands. With the heading \<open>## Day 1: Night market ($$)\<close> the text that comes
  back has one dollar sign, and the input is not a subsequence of it.
\<close>

lemma dollar_day_headings: "dayHeadings dollar_day = [js ''## Day 1: Night market ($$)'']"
  by (simp add: dayHeadings_def day_heading_at_def dollar_day_def char_defs strip_prefix_def)

theorem dollar_in_heading_is_lost:
  "addWeatherToItinerary taipei strict_engine (\<lambda>i req. Inr None) dollar_day [wpA, wpB]
     (js ''2024-07-22'')
   = ([(Some (JNumber (js ''24.7'')), Some (JNumber (js ''121.7'')), js ''2024-07-22'')],
      Inr (js ''## Day 1: Night market ($)'' @ [10, 10] @ js ''**Weather Forecast:** '' @ unavailable))
   \<and> \<not> subseq dollar_day
        (js ''## Day 1: Night market ($)'' @ [10, 10] @ js ''**Weather Forecast:** '' @ unavailable)"
  unfolding addWeatherToItinerary_def dollar_day_headings date_2024_07_22
  by (simp add: iso_2024_07_22 location_for_def wpA_def wpB_def Let_def)
    (simp add: js_def replace_first_def weatherHtml_def unavailable_def dollar_day_def)

text \<open>Without dollar signs in the headings and in the forecasts, the enrichment only
  inserts: the input is a subsequence of the output.\<close>

lemma GetSubstitution_plain: "36 \<notin> set r \<Longrightarrow> GetSubstitution m b a r = r"
  by (induction m b a r rule: GetSubstitution.induct) auto

lemma find_first_split: "find_first p s = Some (b, a) \<Longrightarrow> s = b @ p @ a"
proof (induction s arbitrary: b)
  case Nil
  then show ?case by (simp split: if_splits)
next
  case (Cons c r)
  show ?case
  proof (cases "prefix p (c # r)")
    case True
    with Cons.prems show ?thesis
      by (auto simp: prefix_def)
  next
    case False
    with Cons.prems obtain b' where "find_first p r = Some (b', a)" "b = c # b'"
      by auto
    with Cons.IH show ?thesis by simp
  qed
qed

lemma replace_first_inserts: "36 \<notin> set h \<Longrightarrow> 36 \<notin> set w \<Longrightarrow> subseq s (replace_first s h (h @ w))"
proof (cases "find_first h s")
  case None
  then show ?thesis by (simp add: replace_first_def)
next
  case (Some ba)
  obtain b a where ba: "ba = (b, a)" by (cases ba)
  assume "36 \<notin> set h" "36 \<notin> set w"
  then have "GetSubstitution h b a (h @ w) = h @ w"
    by (simp add: GetSubstitution_plain)
  moreover have "s = b @ h @ a"
    using Some ba find_first_split by blast
  moreover have "subseq (b @ h @ a) (b @ (h @ w) @ a)"
    by (intro list_emb_append_mono subseq_order.order_refl prefix_imp_subseq) simp
  ultimately show ?thesis
    using Some ba by (simp add: replace_first_def)
qed

lemma weatherHtml_plain: "(\<And>x. w = Some x \<Longrightarrow> 36 \<notin> set x) \<Longrightarrow> 36 \<notin> set (weatherHtml w)"
  by (cases w) (auto simp: weatherHtml_def unavailable_def js_def)

lemma enrich_from_inserts:
  "\<forall>h\<in>set hs. 36 \<notin> set h \<Longrightarrow> \<forall>k r x. g k r = Inr (Some x) \<longrightarrow> 36 \<notin> set x \<Longrightarrow>
     enrich_from tz g wps i hs cur upd reqs = (rs, Inr out) \<Longrightarrow> subseq upd out"
proof (induction hs arbitrary: i cur upd reqs)
  case Nil
  then show ?case by simp
next
  case (Cons h hs)
  have hs: "\<forall>x\<in>set hs. 36 \<notin> set x"
    using Cons.prems(1) by simp
  note IH = Cons.IH [OF hs Cons.prems(2)]
  show ?case
  proof (cases "location_for wps i")
    case None
    with Cons.prems(3) IH show ?thesis by simp
  next
    case (Some loc)
    show ?thesis
    proof (cases cur)
      case None
      with Some Cons.prems(3) show ?thesis by simp
    next
      case (Some t)
      define req where
        "req = (map_of loc (js ''lat''), map_of loc (js ''lng''), split_T_0 (toISOString t))"
      show ?thesis
      proof (cases "g i req")
        case (Inl e)
        with \<open>location_for wps i = Some loc\<close> Some Cons.prems(3) show ?thesis
          by (simp add: req_def Let_def)
      next
        case (Inr w)
        have "36 \<notin> set (weatherHtml w)"
          using Inr Cons.prems(2) by (intro weatherHtml_plain) blast
        moreover have "36 \<notin> set h"
          using Cons.prems(1) by simp
        ultimately have step: "subseq upd (replace_first upd h (h @ weatherHtml w))"
          by (rule replace_first_inserts [rotated])
        have "enrich_from tz g wps (i + 1) hs (next_day tz cur)
            (replace_first upd h (h @ weatherHtml w)) (reqs @ [req]) = (rs, Inr out)"
          using Inr \<open>location_for wps i = Some loc\<close> Some Cons.prems(3)
          by (simp add: req_def Let_def)
        then have "subseq (replace_first upd h (h @ weatherHtml w)) out"
          by (rule IH)
        with step show ?thesis
          by (rule subseq_order.order_trans)
      qed
    qed
  qed
qed

lemma enrichment_inserts_without_dollars:
  assumes "\<forall>h\<in>set (dayHeadings itineraryText). 36 \<notin> set h"
    and "\<forall>k r x. g k r = Inr (Some x) \<longrightarrow> 36 \<notin> set x"
    and "addWeatherToItinerary tz engine g itineraryText wps d = (rs, Inr out)"
  shows "subseq itineraryText out"
proof (cases "new_Date engine d")
  case None
  with assms(3) show ?thesis
    by (simp add: addWeatherToItinerary_def)
next
  case (Some t0)
  with assms(3) have "enrich_from tz g wps 0 (dayHeadings itineraryText) (Some t0) itineraryText []
      = (rs, Inr out)"
    by (simp add: addWeatherToItinerary_def)
  then show ?thesis
    by (rule enrich_from_inserts [OF assms(1,2)])
qed

section \<open>Where the lines are written\<close>

text \<open>The first occurrence of a text is where no occurrence starts before.\<close>

lemma find_first_here:
  "h \<noteq> [] \<Longrightarrow> \<forall>i<length P. \<not> prefix h (drop i (P @ h @ R)) \<Longrightarrow> find_first h (P @ h @ R) = Some (P, R)"
proof (induction P)
  case Nil
  then obtain c r where "h @ R = c # r"
    by (cases h) auto
  then show ?case
    by (metis append_Nil append_eq_conv_conj find_first.simps(2) prefixI)
next
  case (Cons a P)
  from Cons.prems(2) have "\<not> prefix h (a # P @ h @ R)"
    by force
  moreover have "\<forall>i<length P. \<not> prefix h (drop i (P @ h @ R))"
  proof (intro allI impI)
    fix i
    assume "i < length P"
    with Cons.prems(2) have "\<not> prefix h (drop (Suc i) ((a # P) @ h @ R))"
      by (metis Suc_less_eq length_Cons)
    then show "\<not> prefix h (drop i (P @ h @ R))"
      by simp
  qed
  ultimately show ?case
    using Cons.IH [OF Cons.prems(1)] by simp
qed

lemma find_first_only:
  "find_first h (P @ h @ R) = Some (P, R) \<Longrightarrow> i < length P \<Longrightarrow> \<not> prefix h (drop i (P @ h @ R))"
proof (induction P arbitrary: i)
  case Nil
  then show ?case by simp
next
  case (Cons a P)
  from Cons.prems(1) have no: "\<not> prefix h (a # P @ h @ R)"
    by (auto split: if_splits)
  with Cons.prems(1) have rest: "find_first h (P @ h @ R) = Some (P, R)"
    by auto
  show ?case
  proof (cases i)
    case 0
    with no show ?thesis by simp
  next
    case (Suc k)
    with Cons.prems(2) Cons.IH [OF rest, of k] show ?thesis
      by simp
  qed
qed

lemma prefix_stops: "prefix h (a @ c # r) \<Longrightarrow> c \<notin> set h \<Longrightarrow> prefix h a"
  by (auto simp: prefix_append prefix_Cons)

lemma insert_keeps_first:
  assumes found: "find_first h (A @ C @ h @ R) = Some (A @ C, R)"
    and h: "h \<noteq> []" "hd h \<notin> set L" "L \<noteq> []" "hd L \<notin> set h"
  shows "find_first h (A @ L @ C @ h @ R) = Some (A @ L @ C, R)"
proof -
  have "\<not> prefix h (drop i ((A @ L @ C) @ h @ R))" if i: "i < length (A @ L @ C)" for i
  proof
    assume p: "prefix h (drop i ((A @ L @ C) @ h @ R))"
    consider (before) "i < length A" | (inside) "length A \<le> i" "i < length A + length L"
      | (after) "length A + length L \<le> i"
      by linarith
    then show False
    proof cases
      case before
      obtain c L' where L: "L = c # L'"
        using h(3) by (cases L) auto
      from h(4) L have c: "c \<notin> set h"
        by simp
      from p before have "prefix h (drop i A @ c # L' @ C @ h @ R)"
        by (simp add: L)
      then have "prefix h (drop i A)"
        using c by (rule prefix_stops)
      then have "prefix h (drop i A @ C @ h @ R)"
        by (rule prefix_prefix)
      then have "prefix h (drop i ((A @ C) @ h @ R))"
        using before by simp
      moreover have "i < length (A @ C)"
        using before by simp
      ultimately show False
        using find_first_only [of h "A @ C" R i] found by simp
    next
      case inside
      define l where "l = drop (i - length A) L"
      from inside have l: "l \<noteq> []" "set l \<subseteq> set L"
        unfolding l_def by (simp, meson set_drop_subset)
      from p inside have "prefix h (l @ C @ h @ R)"
        by (simp add: l_def)
      with h(1) l(1) have "hd h = hd l"
        by (cases h; cases l) auto
      with l have "hd h \<in> set L"
        by (cases l) auto
      with h(2) show False
        by simp
    next
      case after
      define k where "k = i - length L"
      from after i have k: "k < length (A @ C)" "length A \<le> k"
        by (simp_all add: k_def)
      from p after have "prefix h (drop (i - length A - length L) (C @ h @ R))"
        by simp
      moreover have "drop k ((A @ C) @ h @ R) = drop (i - length A - length L) (C @ h @ R)"
        using k after by (simp add: k_def add.commute)
      ultimately show False
        using find_first_only [of h "A @ C" R k] found k(1) by simp
    qed
  qed
  then show ?thesis
    using find_first_here [OF h(1), of "A @ L @ C" R] by simp
qed

lemma placed_insert:
  "placed (A @ C) segs \<Longrightarrow>
     \<forall>s\<in>set segs. fst s \<noteq> [] \<and> hd (fst s) \<notin> set L \<and> hd L \<notin> set (fst s) \<Longrightarrow> L \<noteq> [] \<Longrightarrow>
     placed (A @ L @ C) segs"
proof (induction segs arbitrary: C)
  case Nil
  show ?case by simp
next
  case (Cons s segs)
  from Cons.prems(1) have found:
    "find_first (fst s) (A @ C @ fst s @ snd s @ assemble segs) = Some (A @ C, snd s @ assemble segs)"
    and rest: "placed (A @ (C @ fst s @ snd s)) segs"
    by simp_all
  from Cons.prems(2) have s: "fst s \<noteq> []" "hd (fst s) \<notin> set L" "hd L \<notin> set (fst s)"
    and later: "\<forall>s\<in>set segs. fst s \<noteq> [] \<and> hd (fst s) \<notin> set L \<and> hd L \<notin> set (fst s)"
    by simp_all
  have "find_first (fst s) (A @ L @ C @ fst s @ snd s @ assemble segs)
      = Some (A @ L @ C, snd s @ assemble segs)"
    by (rule insert_keeps_first [OF found s(1,2) Cons.prems(3) s(3)])
  moreover have "placed (A @ L @ (C @ fst s @ snd s)) segs"
    by (rule Cons.IH [OF rest later Cons.prems(3)])
  ultimately show ?case
    by simp
qed

lemma replace_first_here:
  "find_first h s = Some (P, R) \<Longrightarrow> 36 \<notin> set r \<Longrightarrow> replace_first s h r = P @ r @ R"
  by (simp add: replace_first_def GetSubstitution_plain)

lemma weatherHtml_shape:
  assumes "\<And>x. w = Some x \<Longrightarrow> 35 \<notin> set x \<and> 36 \<notin> set x"
  shows "weatherHtml w \<noteq> [] \<and> hd (weatherHtml w) = 10 \<and> 35 \<notin> set (weatherHtml w)
    \<and> 36 \<notin> set (weatherHtml w)"
  using assms by (cases w) (auto simp: weatherHtml_def unavailable_def js_def)

lemma location_for_some: "wps \<noteq> [] \<Longrightarrow> \<exists>loc. location_for wps i = Some loc"
  by (simp add: location_for_def)

lemma enrich_from_writes:
  assumes wps: "wps \<noteq> []"
    and g: "\<forall>k r. \<exists>w. g k r = Inr w"
    and plain: "\<forall>k r x. g k r = Inr (Some x) \<longrightarrow> 35 \<notin> set x \<and> 36 \<notin> set x"
  shows "\<forall>s\<in>set segs. fst s \<noteq> [] \<and> hd (fst s) = 35 \<and> 10 \<notin> set (fst s) \<and> 36 \<notin> set (fst s) \<Longrightarrow>
    placed D segs \<Longrightarrow> \<forall>k<length segs. (next_day tz ^^ k) cur \<noteq> None \<Longrightarrow>
    snd (enrich_from tz g wps i (map fst segs) cur (D @ assemble segs) reqs)
      = Inr (D @ annotated tz g wps i cur segs)"
proof (induction segs arbitrary: i cur D reqs)
  case Nil
  show ?case by (simp add: assemble_def)
next
  case (Cons s segs)
  define h where "h = fst s"
  define p where "p = snd s"
  obtain loc where loc: "location_for wps i = Some loc"
    using location_for_some [OF wps] by blast
  from Cons.prems(3) have "(next_day tz ^^ 0) cur \<noteq> None"
    by blast
  then obtain t where t: "cur = Some t"
    by auto
  define req where
    "req = (map_of loc (js ''lat''), map_of loc (js ''lng''), split_T_0 (toISOString t))"
  obtain w where w: "g i req = Inr w"
    using g by blast
  define ln where "ln = weatherHtml w"
  have ln: "ln \<noteq> []" "hd ln = 10" "35 \<notin> set ln" "36 \<notin> set ln"
    using weatherHtml_shape [of w] plain w unfolding ln_def by blast+
  from Cons.prems(1) have hs: "h \<noteq> []" "hd h = 35" "10 \<notin> set h" "36 \<notin> set h"
    and later: "\<forall>s\<in>set segs. fst s \<noteq> [] \<and> hd (fst s) = 35 \<and> 10 \<notin> set (fst s) \<and> 36 \<notin> set (fst s)"
    by (simp_all add: h_def)
  from Cons.prems(2) have found: "find_first h (D @ h @ p @ assemble segs) = Some (D, p @ assemble segs)"
    and rest: "placed ((D @ h) @ p) segs"
    by (simp_all add: h_def p_def)
  have line: "line_for tz g wps i (Some t) = ln"
    by (simp add: line_for_def loc w ln_def req_def [symmetric])
  have whole: "D @ assemble (s # segs) = D @ h @ p @ assemble segs"
    by (simp add: assemble_def h_def p_def)
  have "36 \<notin> set (h @ ln)"
    using hs(4) ln(4) by simp
  with found have step: "replace_first (D @ h @ p @ assemble segs) h (h @ ln)
      = (D @ h @ ln @ p) @ assemble segs"
    by (simp add: replace_first_here)
  have "\<forall>s\<in>set segs. fst s \<noteq> [] \<and> hd (fst s) \<notin> set ln \<and> hd ln \<notin> set (fst s)"
    using later ln by auto
  from placed_insert [OF rest this ln(1)] have placed': "placed (D @ h @ ln @ p) segs"
    by simp
  have cursors: "\<forall>k<length segs. (next_day tz ^^ k) (next_day tz cur) \<noteq> None"
  proof (intro allI impI)
    fix k
    assume "k < length segs"
    with Cons.prems(3) have "(next_day tz ^^ Suc k) cur \<noteq> None"
      by (metis Suc_less_eq length_Cons)
    then show "(next_day tz ^^ k) (next_day tz cur) \<noteq> None"
      by (simp add: funpow_swap1)
  qed
  have "snd (enrich_from tz g wps (i + 1) (map fst segs) (next_day tz cur)
        ((D @ h @ ln @ p) @ assemble segs) (reqs @ [req]))
      = Inr ((D @ h @ ln @ p) @ annotated tz g wps (i + 1) (next_day tz cur) segs)"
    by (rule Cons.IH [OF later placed' cursors])
  with step show ?case
    unfolding whole
    by (simp add: loc t w Let_def req_def [symmetric] ln_def [symmetric] h_def [symmetric]
        p_def [symmetric] line)
qed

lemma match_all_found: "x \<in> set (match_all m s) \<Longrightarrow> \<exists>s' r. m s' = Some (x, r)"
proof (induction m s rule: match_all.induct)
  case (1 m s)
  show ?case
  proof (cases "m s")
    case None
    with "1.prems" obtain c r where s: "s = c # r" and x: "x \<in> set (match_all m r)"
      by (cases s) (auto simp: match_all.simps [of m s])
    with None "1.IH" show ?thesis
      by blast
  next
    case (Some fr)
    obtain found rest where fr: "fr = (found, rest)"
      by (cases fr)
    show ?thesis
    proof (cases "x = found")
      case True
      with Some fr show ?thesis by blast
    next
      case False
      show ?thesis
      proof (cases "length rest < length s")
        case True
        with Some fr False "1.prems" have "x \<in> set (match_all m rest)"
          by (auto simp: match_all.simps [of m s])
        with Some fr True "1.IH" show ?thesis
          by blast
      next
        case short: False
        with Some fr False "1.prems" obtain c r where s: "s = c # r" and x: "x \<in> set (match_all m r)"
          by (cases s) (auto simp: match_all.simps [of m s])
        with Some fr short "1.IH" show ?thesis
          by blast
      qed
    qed
  qed
qed

lemma day_heading_shape:
  assumes "day_heading_at s = Some (h, r)"
  shows "h \<noteq> [] \<and> hd h = 35 \<and> 10 \<notin> set h"
proof -
  from assms obtain r0 r1 where h: "h = js ''## Day '' @ takeWhile is_digit r0 @ [58]
      @ takeWhile (\<lambda>x. \<not> is_line_terminator x) r1"
    by (auto simp: day_heading_at_def Let_def split: option.splits list.splits if_splits)
  have "10 \<notin> set (takeWhile is_digit r0)"
    by (auto dest!: set_takeWhileD simp: is_digit_def)
  moreover have "10 \<notin> set (takeWhile (\<lambda>x. \<not> is_line_terminator x) r1)"
    by (auto dest!: set_takeWhileD simp: is_line_terminator_def)
  ultimately show ?thesis
    by (simp add: h js_def)
qed

lemma heading_shape: "h \<in> set (dayHeadings s) \<Longrightarrow> h \<noteq> [] \<and> hd h = 35 \<and> 10 \<notin> set h"
  unfolding dayHeadings_def
  using match_all_found [of h day_heading_at s] day_heading_shape by blast

lemma enrichment_annotates:
  assumes "wps \<noteq> []"
    and "\<forall>k r. \<exists>w. g k r = Inr w"
    and "\<forall>k r x. g k r = Inr (Some x) \<longrightarrow> 35 \<notin> set x \<and> 36 \<notin> set x"
    and "new_Date engine d = Some t"
    and "dayHeadings (p0 @ assemble segs) = map fst segs"
    and "\<forall>s\<in>set segs. 36 \<notin> set (fst s)"
    and "placed p0 segs"
    and "\<forall>k<length segs. (next_day tz ^^ k) (Some t) \<noteq> None"
  shows "snd (addWeatherToItinerary tz engine g (p0 @ assemble segs) wps d)
    = Inr (p0 @ annotated tz g wps 0 (Some t) segs)"
proof -
  have "\<forall>s\<in>set segs. fst s \<noteq> [] \<and> hd (fst s) = 35 \<and> 10 \<notin> set (fst s) \<and> 36 \<notin> set (fst s)"
  proof
    fix s
    assume s: "s \<in> set segs"
    then have "fst s \<in> set (dayHeadings (p0 @ assemble segs))"
      by (simp add: assms(5))
    with heading_shape assms(6) s show "fst s \<noteq> [] \<and> hd (fst s) = 35 \<and> 10 \<notin> set (fst s) \<and> 36 \<notin> set (fst s)"
      by blast
  qed
  from enrich_from_writes [OF assms(1-3) this assms(7,8), of 0 "[]"] show ?thesis
    by (simp add: addWeatherToItinerary_def assms(4,5))
qed

text \<open>
  The lines of a day whose lookup fails and of the other days, with the gateway of the
  source on two networks that differ at most for day \<open>j\<close>.
\<close>

lemma failed_day_line:
  assumes "wps \<noteq> []" and "\<forall>req. getWeatherForecast pf (net j) req = Inr None"
  shows "line_for tz (\<lambda>i. getWeatherForecast pf (net i)) wps j (Some t)
    = [10, 10] @ js ''**Weather Forecast:** '' @ unavailable"
proof -
  obtain loc where "location_for wps j = Some loc"
    using location_for_some [OF assms(1)] by blast
  with assms(2) show ?thesis
    by (simp add: line_for_def weatherHtml_def)
qed

lemma other_day_line:
  assumes "net i = net' i"
  shows "line_for tz (\<lambda>i. getWeatherForecast pf (net i)) wps i cur
       = line_for tz (\<lambda>i. getWeatherForecast pf (net' i)) wps i cur"
  unfolding line_for_def assms ..

text \<open>
  Where every heading is found at its own place and there is no dollar sign in the
  headings and no dollar sign or hash in the forecasts, the enrichment with the gateway of
  the source ends with the itinerary in which every heading is followed by its line: the
  marker for a day whose lookup fails, and for every other day what the lookup of that day
  gives, whatever happens to the lookups of the other days.
\<close>

lemma failure_marks_its_day:
  assumes "wps \<noteq> []"
    and "\<forall>k r x. getWeatherForecast pf (net k) r = Inr (Some x) \<longrightarrow> 35 \<notin> set x \<and> 36 \<notin> set x"
    and "new_Date engine d = Some t"
    and "dayHeadings (p0 @ assemble segs) = map fst segs"
    and "\<forall>s\<in>set segs. 36 \<notin> set (fst s)"
    and "placed p0 segs"
    and "\<forall>k<length segs. (next_day tz ^^ k) (Some t) \<noteq> None"
  shows "snd (addWeatherToItinerary tz engine (\<lambda>i. getWeatherForecast pf (net i))
        (p0 @ assemble segs) wps d)
    = Inr (p0 @ annotated tz (\<lambda>i. getWeatherForecast pf (net i)) wps 0 (Some t) segs)"
  by (rule enrichment_annotates [OF assms(1) _ assms(2-7)])
    (simp add: getWeatherForecast_returns)

text \<open>The two days of the example, the first of which fails.\<close>

lemma two_days_placed:
  "two_days = assemble [(js ''## Day 1: A to B'', [10]), (js ''## Day 2: B to C'', [])]"
  "placed [] [(js ''## Day 1: A to B'', [10]), (js ''## Day 2: B to C'', [])]"
  by (simp_all add: two_days_def assemble_def js_def)

lemma two_days_annotated:
  "snd (addWeatherToItinerary taipei strict_engine
     (\<lambda>i. getWeatherForecast plain_platform (network_down_at 0 i)) two_days [wpA, wpB, wpC]
     (js ''2024-07-22''))
   = Inr (annotated taipei (\<lambda>i. getWeatherForecast plain_platform (network_down_at 0 i))
       [wpA, wpB, wpC] 0 (Some 1721606400000)
       [(js ''## Day 1: A to B'', [10]), (js ''## Day 2: B to C'', [])])"
proof -
  have lines: "\<forall>k r x. getWeatherForecast plain_platform (network_down_at 0 k) r = Inr (Some x)
      \<longrightarrow> 35 \<notin> set x \<and> 36 \<notin> set x"
  proof (intro allI impI)
    fix k r x
    assume a: "getWeatherForecast plain_platform (network_down_at 0 k) r = Inr (Some x)"
    have "x = overcast_text"
      using a failed_forecast [of 0 r] later_forecast [of k 0 r] by (cases "k = 0") simp_all
    then show "35 \<notin> set x \<and> 36 \<notin> set x"
      by (simp add: overcast_text_def js_def)
  qed
  have cursors: "\<forall>k<length [(js ''## Day 1: A to B'', [10::nat]), (js ''## Day 2: B to C'', [])].
      (next_day taipei ^^ k) (Some 1721606400000) \<noteq> None"
    by (simp add: less_Suc_eq taipei_next_2024_07_22)
  have headings: "dayHeadings ([] @ assemble [(js ''## Day 1: A to B'', [10]), (js ''## Day 2: B to C'', [])])
      = map fst [(js ''## Day 1: A to B'', [10]), (js ''## Day 2: B to C'', [])]"
    using two_days_headings by (simp add: two_days_placed(1) [symmetric])
  have dollars: "\<forall>s\<in>set [(js ''## Day 1: A to B'', [10::nat]), (js ''## Day 2: B to C'', [])].
      36 \<notin> set (fst s)"
    by (simp add: js_def)
  from failure_marks_its_day [of "[wpA, wpB, wpC]" plain_platform "network_down_at 0"
      strict_engine "js ''2024-07-22''" 1721606400000 "[]" _ taipei,
      OF _ lines date_2024_07_22 headings dollars two_days_placed(2) cursors]
  show ?thesis
    by (simp add: two_days_placed(1) [symmetric])
qed

section \<open>Extraction of the waypoints\<close>

lemma search_at_first_occurrence:
  "p \<noteq> [] \<Longrightarrow> find_first p s = Some (b, a) \<Longrightarrow> labelled_array_at p (p @ a) = Some x \<Longrightarrow>
     search (labelled_array_at p) s = Some x"
proof (induction s arbitrary: b)
  case Nil
  then show ?case by (simp split: if_splits)
next
  case (Cons c r)
  show ?case
  proof (cases "prefix p (c # r)")
    case True
    with Cons.prems(2) have "c # r = p @ a"
      by (auto simp: prefix_def)
    with Cons.prems(3) have "labelled_array_at p (c # r) = Some x"
      by simp
    then show ?thesis by simp
  next
    case False
    then have "labelled_array_at p (c # r) = None"
      by (simp add: labelled_array_at_def strip_prefix_def)
    moreover from False Cons.prems(2) obtain b' where "find_first p r = Some (b', a)"
      by auto
    ultimately show ?thesis
      using Cons.IH Cons.prems(1,3) by simp
  qed
qed

lemma labelled_array_found:
  assumes "list_all is_space ws" and "93 \<notin> set body"
  shows "labelled_array_at p (p @ ws @ (91 # body @ [93]) @ post) = Some (91 # body @ [93])"
proof -
  have "dropWhile is_space (ws @ 91 # body @ 93 # post) = 91 # body @ 93 # post"
    using assms(1) by (induction ws) (simp_all add: is_space_def)
  moreover have "takeWhile (\<lambda>x. x \<noteq> 93) (body @ 93 # post) = body"
    using assms(2) by (induction body) simp_all
  ultimately show ?thesis
    by (simp add: labelled_array_at_def strip_prefix_def)
qed

lemma has_keys_object: "has_keys ks v \<Longrightarrow> JObject (properties v) = v"
  by (cases v) simp_all

lemma has_keys_objects: "list_all (has_keys ks) items \<Longrightarrow> map JObject (map properties items) = items"
  by (induction items) (auto simp: has_keys_object)

lemma waypoints_extracted:
  assumes first: "find_first (js ''WAYPOINTS:'') response = Some (pre, ws @ (91 # body @ [93]) @ post)"
    and ws: "list_all is_space ws"
    and body: "93 \<notin> set body"
    and parsed: "JSON_parse (91 # body @ [93]) = Inr (JArray items)"
    and shaped: "list_all (has_keys [js ''name'', js ''lat'', js ''lng'']) items"
  shows "parseWaypointsFromResponse response = (map properties items, None)"
proof -
  have label: "js ''WAYPOINTS:'' \<noteq> []"
    by (simp add: js_def)
  have "search (labelled_array_at (js ''WAYPOINTS:'')) response = Some (91 # body @ [93])"
    using search_at_first_occurrence [OF label first] labelled_array_found [OF ws body]
    by blast
  then show ?thesis
    using parsed shaped
    by (simp add: parseWaypointsFromResponse_def parseAndCleanJson_def validated_def)
qed

lemma waypoints_rejected:
  assumes "search (labelled_array_at (js ''WAYPOINTS:'')) response = Some m"
    and "\<forall>items. parseAndCleanJson m = Some (JArray items)
            \<longrightarrow> \<not> list_all (has_keys [js ''name'', js ''lat'', js ''lng'']) items"
  shows "parseWaypointsFromResponse response
        = ([], Some (js ''Failed to parse waypoints from AI response or data was invalid.''))"
  using assms
  by (auto simp: parseWaypointsFromResponse_def validated_def split: option.splits json.splits)

text \<open>
  C4, as the source has it. Let the first occurrence of the label \<open>WAYPOINTS:\<close> in the
  response be followed by white space and by a valid JSON array of records with the keys
  \<open>name\<close>, \<open>lat\<close> and \<open>lng\<close>, whose text has no closing bracket before its last character;
  any text may come before the label and after the array. Then the extraction returns the
  records of the array and sets no error. And whenever the region that the expression
  finds does not parse to an array of such records, the extraction returns the empty list
  and sets the error message; it has no other outcome, so it throws nothing.
\<close>

theorem waypoints_round_trip:
  "(find_first (js ''WAYPOINTS:'') response = Some (pre, ws @ (91 # body @ [93]) @ post)
      \<and> list_all is_space ws \<and> 93 \<notin> set body
      \<and> JSON_parse (91 # body @ [93]) = Inr (JArray items)
      \<and> list_all (has_keys [js ''name'', js ''lat'', js ''lng'']) items
    \<longrightarrow> response = pre @ js ''WAYPOINTS:'' @ ws @ (91 # body @ [93]) @ post
      \<and> parseWaypointsFromResponse response = (map properties items, None)
      \<and> map JObject (map properties items) = items)
   \<and> (search (labelled_array_at (js ''WAYPOINTS:'')) response = Some m
      \<and> (\<forall>items. parseAndCleanJson m = Some (JArray items)
            \<longrightarrow> \<not> list_all (has_keys [js ''name'', js ''lat'', js ''lng'']) items)
    \<longrightarrow> parseWaypointsFromResponse response
        = ([], Some (js ''Failed to parse waypoints from AI response or data was invalid.'')))"
  using find_first_split [of "js ''WAYPOINTS:''" response pre "ws @ (91 # body @ [93]) @ post"]
    waypoints_extracted [of response pre ws body post items] has_keys_objects [of _ items]
    waypoints_rejected [of response m]
  by blast

lemma raw_plan_first_label:
  "find_first (js ''WAYPOINTS:'') raw_plan
    = Some (js ''START_DATE: 2024-07-22'' @ [10] @ js ''## Day 1: A to B'' @ [10]
              @ js ''## Day 2: B to C'' @ [10],
            [32] @ (91 # plan_waypoints @ [93]) @ ([10] @ js ''POIS: []''))"
  by (simp add: raw_plan_def js_def)

lemma plan_waypoints_parsed:
  "JSON_parse (91 # plan_waypoints @ [93]) = Inr (JArray [JObject wpA, JObject wpB, JObject wpC])"
  by (simp add: plan_waypoints_def char_defs json_defs wpA_def wpB_def wpC_def Let_def)

lemma raw_station_region:
  "search (labelled_array_at (js ''WAYPOINTS:'')) raw_station
    = Some (js ''[{\"name\": \"Taipei [Main Station]'')"
  by (simp add: raw_station_def station_waypoint_def char_defs labelled_array_at_def
      strip_prefix_def)

lemma raw_station_region_unparsed:
  "parseAndCleanJson (js ''[{\"name\": \"Taipei [Main Station]'') = None"
  by (simp add: parseAndCleanJson_def cleanedString_def bare_key_at_def trailing_comma_at_def
      main_array_at_def char_defs json_defs Let_def)

theorem waypoints_round_trip_witness:
  "parseWaypointsFromResponse raw_plan = ([wpA, wpB, wpC], None)
   \<and> parseWaypointsFromResponse raw_station
       = ([], Some (js ''Failed to parse waypoints from AI response or data was invalid.''))"
proof -
  have "list_all is_space [32]"
    by (simp add: is_space_def)
  moreover have "93 \<notin> set plan_waypoints"
    by (simp add: plan_waypoints_def js_def)
  moreover have "list_all (has_keys [js ''name'', js ''lat'', js ''lng''])
      [JObject wpA, JObject wpB, JObject wpC]"
    by (simp add: wpA_def wpB_def wpC_def js_def)
  ultimately have "parseWaypointsFromResponse raw_plan
      = (map properties [JObject wpA, JObject wpB, JObject wpC], None)"
    using waypoints_round_trip [of raw_plan _ "[32]" plan_waypoints "[10] @ js ''POIS: []''"
        "[JObject wpA, JObject wpB, JObject wpC]"]
      raw_plan_first_label plan_waypoints_parsed
    by blast
  moreover have "parseWaypointsFromResponse raw_station
       = ([], Some (js ''Failed to parse waypoints from AI response or data was invalid.''))"
    using waypoints_round_trip [of raw_station _ _ _ _ _ "js ''[{\"name\": \"Taipei [Main Station]''"]
      raw_station_region raw_station_region_unparsed
    by simp
  ultimately show ?thesis
    by simp
qed

text \<open>C4 as the claim has it fails: a valid array of one record whose name has a closing
  bracket, under the label and after some prose, is not extracted.\<close>

theorem bracket_in_name_is_not_extracted:
  "JSON_parse (91 # station_waypoint @ [93]) = Inr (JArray [JObject wpStation])
   \<and> list_all (has_keys [js ''name'', js ''lat'', js ''lng'']) [JObject wpStation]
   \<and> raw_station = js ''Plan.'' @ [10] @ js ''WAYPOINTS: '' @ (91 # station_waypoint @ [93])
   \<and> parseWaypointsFromResponse raw_station
       = ([], Some (js ''Failed to parse waypoints from AI response or data was invalid.''))"
proof -
  have "JSON_parse (91 # station_waypoint @ [93]) = Inr (JArray [JObject wpStation])"
    by (simp add: station_waypoint_def wpStation_def char_defs json_defs Let_def)
  moreover have "list_all (has_keys [js ''name'', js ''lat'', js ''lng'']) [JObject wpStation]"
    by (simp add: wpStation_def js_def)
  moreover have "parseWaypointsFromResponse raw_station
       = ([], Some (js ''Failed to parse waypoints from AI response or data was invalid.''))"
    by (simp add: parseWaypointsFromResponse_def raw_station_region raw_station_region_unparsed
        validated_def)
  ultimately show ?thesis
    by (simp add: raw_station_def)
qed

section \<open>The attempts of the repair parser\<close>




lemmas repair_defs = main_array_at_def bracket_span_def







text \<open>A key that is an identifier of JavaScript and not a word of the expression: it is not
  quoted, and the array is not returned.\<close>

lemma dollar_key_is_not_quoted:
  "JSON_parse (js ''[{\"$id\": 1}]'') = Inr (JArray [JObject [(js ''$id'', JNumber (js ''1''))]])"
  "parseAndCleanJson (js ''[{$id: 1}]'') = None"
proof -
  show "JSON_parse (js ''[{\"$id\": 1}]'') = Inr (JArray [JObject [(js ''$id'', JNumber (js ''1''))]])"
    by (simp add: char_defs json_defs Let_def)
  have "JSON_parse (js ''[{$id: 1}]'') = Inl SyntaxError"
    by (simp add: char_defs json_defs Let_def)
  moreover have "cleanedString (js ''[{$id: 1}]'') = js ''[{$id: 1}]''"
  proof -
    have quoted: "replace_all bare_key_at (js ''[{$id: 1}]'') = js ''[{$id: 1}]''"
      by (simp add: char_defs bare_key_at_def)
    have stripped: "replace_all trailing_comma_at (js ''[{$id: 1}]'') = js ''[{$id: 1}]''"
      by (simp add: char_defs trailing_comma_at_def)
    show ?thesis
      by (simp only: cleanedString_def quoted stripped)
  qed
  moreover have "search main_array_at (js ''[{$id: 1}]'') = Some (js ''[{$id: 1}]'')"
    by (simp add: char_defs repair_defs)
  ultimately show "parseAndCleanJson (js ''[{$id: 1}]'') = None"
    by (simp add: parseAndCleanJson_def)
qed


text \<open>The rest of the section is about the values that are written with a layout.\<close>

subsection \<open>Characters\<close>












subsection \<open>Literals\<close>







subsection \<open>Where the repairs can start\<close>





subsection \<open>Replacing in a text that is written piece by piece\<close>

declare replace_all.simps [simp del]









subsection \<open>The first repair on a written value\<close>










lemma gaps_keys [simp]:
  "after_open (keys_tidied b L n) = after_open (L n)"
  "after_comma (keys_tidied b L n) = after_comma (L n)"
  "after_colon (keys_tidied b L n) = after_colon (L n)"
  "before_close (keys_tidied b L n) = before_close (L n)"
  "before_colon (keys_tidied b L n) = (if b then [] else before_colon (L n))"
  by (simp_all add: keys_tidied_def)

lemma rest_items_keys [simp]: "rest_items c (keys_tidied b L n) ys = rest_items c (L n) ys"
  by (induction ys) simp_all

lemma all_items_keys [simp]: "all_items c (keys_tidied b L n) ys = all_items c (L n) ys"
  by (cases ys) simp_all



subsection \<open>The second repair on a written value\<close>




lemma gaps_commas [simp]:
  "after_open (commas_tidied c L n) = after_open (L n)"
  "after_comma (commas_tidied c L n) = after_comma (L n)"
  "after_colon (commas_tidied c L n) = after_colon (L n)"
  "before_colon (commas_tidied c L n) = before_colon (L n)"
  "before_close (commas_tidied c L n) = (if c then [] else before_close (L n))"
  by (simp_all add: commas_tidied_def)





subsection \<open>Reading a written value\<close>

declare json_value.simps [simp del] json_elements.simps [simp del] json_members.simps [simp del]























end
